theory Spec2Isabelle
  imports Complex_Main "HOL-Library.Sublist" "HOL-Library.Multiset"
begin

section \<open>The training script \<open>examples/scripts/training.py\<close>\<close>

text \<open>
  The script parses four command-line options, loads two arrays, builds one of seven
  models from a configuration and an encoder/decoder pair, reports parameter counts and
  hands everything to the training pipeline. Everything it calls (numpy, the configuration
  classes, the network and model classes, the pipeline) lives outside the script; the
  embedding takes those as the fields of a record \<open>env\<close> and records each call to them,
  with its arguments, in a trace. An exception is a value; a run is a trace together with
  either the exception that ended it or the value it produced.
\<close>

subsection \<open>Data\<close>

text \<open>
  A Python exception: the name that \<open>type(e)\<close> prints between the quotes of
  \<open><class '...'>\<close>, the text of \<open>str(e)\<close>, and the \<open>__cause__\<close> set by
  \<open>raise ... from e\<close>. The exceptions the world raises are instances of \<open>Exception\<close>,
  the ones an \<open>except Exception\<close> clause catches.
\<close>

datatype exn = Exn (exn_class: string) (exn_msg: string) (exn_cause: "exn option")

text \<open>
  A numeric array: its shape and its elements in row-major order. Element values are
  taken in the reals, which idealises binary64: the quotient by \<open>255.\<close> is the exact one,
  not the rounded one. What is proved below depends on the shape of an array and on
  whether it has elements, never on the value of an element. Dividing such an array never
  raises.
\<close>

record ndarray =
  shape :: "nat list"
  elems :: "real list"

text \<open>
  A model configuration object: the \<open>input_dim\<close> attribute and the remaining
  hyperparameters, whose meaning belongs to the architecture library.
\<close>

record base_ae_config =
  input_dim :: "nat list option"
  hparams :: "(string \<times> string) list"

type_synonym base_training_config = "(string \<times> string) list"

text \<open>
  A torch parameter, as far as lines 220-222 look at it, and a torch module with the list
  that \<open>parameters()\<close> yields. A model is a module with an \<open>encoder\<close> and a
  \<open>decoder\<close> attribute.
\<close>

record param =
  numel :: nat
  requires_grad :: bool

record nn_module =
  parameters :: "param list"

record vae_model = nn_module +
  encoder :: nn_module
  decoder :: nn_module

datatype config_cls =
  AEConfig | VAEConfig | WAE_MMD_Config | VAMPConfig | BetaVAEConfig | HVAEConfig | RHVAEConfig

datatype model_cls = AE | VAE | WAE_MMD | VAMP | BetaVAE | HVAE | RHVAE

datatype net_cls =
    Encoder_AE_MNIST | Encoder_VAE_MNIST | Decoder_AE_MNIST
  | Encoder_AE_CIFAR | Encoder_VAE_CIFAR | Decoder_AE_CIFAR
  | Encoder_AE_CELEBA | Encoder_VAE_CELEBA | Decoder_AE_CELEBA

text \<open>The three local names bound by the imports of lines 57-73.\<close>

record arch =
  Encoder_AE :: net_cls
  Encoder_VAE :: net_cls
  Decoder_AE :: net_cls

text \<open>The namespace returned by \<open>ap.parse_args()\<close>.\<close>

record args =
  dataset :: string
  model_name :: string
  model_config :: "string option"
  training_config :: string

text \<open>The option values found on the command line, before argparse has checked them.\<close>

record raw_args =
  arg_dataset :: "string option"
  arg_model_name :: "string option"
  arg_model_config :: "string option"
  arg_training_config :: "string option"

text \<open>
  The lines written by \<open>logger.info\<close>, with the values they print. \<open>SplitSummary\<close> is
  line 93 or 94 (dataset name, split, shape, min, max), \<open>ParamCounts\<close> is line 225 (model
  name, encoder, decoder and total count); both print the name upper-cased.
\<close>

datatype log_line =
    LoadingData string
  | LoadedData
  | Rule60
  | DataHeader
  | SplitSummary string string "nat list" real real
  | BuiltModel string
  | Rule70
  | ParamHeader
  | ParamCounts string nat nat nat

text \<open>The calls that leave the script, in the order they are made.\<close>

datatype event =
    LogInfo log_line
  | NpLoad string
  | FromJsonFile config_cls string
  | NewConfig config_cls
  | NewNet net_cls base_ae_config
  | NewModel model_cls base_ae_config nn_module nn_module
  | TrainingFromJsonFile string
  | NewPipeline base_training_config vae_model
  | CallPipeline vae_model ndarray ndarray

text \<open>
  The world outside the script. \<open>np_load path\<close> is \<open>np.load(path)\<close>, an archive whose
  \<open>[key]\<close> may itself raise; \<open>from_json_file\<close> and \<open>new_config\<close> are the class method
  and the default constructor of a configuration class; \<open>new_net\<close> and \<open>new_model\<close> are
  the constructors of the network and model classes; the last three are
  \<open>BaseTrainingConfig.from_json_file\<close>, \<open>TrainingPipeline(...)\<close> and the call of the
  pipeline (\<open>None\<close>: it returned).
\<close>

record env =
  np_load :: "string \<Rightarrow> exn + (string \<Rightarrow> exn + ndarray)"
  from_json_file :: "config_cls \<Rightarrow> string \<Rightarrow> exn + base_ae_config"
  new_config :: "config_cls \<Rightarrow> base_ae_config"
  new_net :: "net_cls \<Rightarrow> base_ae_config \<Rightarrow> exn + nn_module"
  new_model :: "model_cls \<Rightarrow> base_ae_config \<Rightarrow> nn_module \<Rightarrow> nn_module \<Rightarrow> exn + vae_model"
  training_from_json_file :: "string \<Rightarrow> exn + base_training_config"
  new_pipeline :: "base_training_config \<Rightarrow> vae_model \<Rightarrow> exn option"
  call_pipeline :: "base_training_config \<Rightarrow> vae_model \<Rightarrow> ndarray \<Rightarrow> ndarray \<Rightarrow> exn option"

subsection \<open>Runs\<close>

type_synonym 'a run = "event list \<times> (exn + 'a)"

definition ret :: "'a \<Rightarrow> 'a run" where
  "ret x = ([], Inr x)"

definition raise :: "exn \<Rightarrow> 'a run" where
  "raise e = ([], Inl e)"

definition emit :: "event \<Rightarrow> unit run" where
  "emit ev = ([ev], Inr ())"

text \<open>A call that leaves the script: the event, then what the world answers.\<close>

definition call :: "event \<Rightarrow> exn + 'a \<Rightarrow> 'a run" where
  "call ev r = ([ev], r)"

text \<open>Sequencing: the second statement runs only if the first did not raise.\<close>

definition bind_run :: "'a run \<Rightarrow> ('a \<Rightarrow> 'b run) \<Rightarrow> 'b run" where
  "bind_run m f =
     (case m of
        (t, Inl e) \<Rightarrow> (t, Inl e)
      | (t, Inr x) \<Rightarrow> (case f x of (t', r) \<Rightarrow> (t @ t', r)))"

text \<open>\<open>try: m except Exception as e: raise h(e)\<close>.\<close>

definition try_except :: "'a run \<Rightarrow> (exn \<Rightarrow> exn) \<Rightarrow> 'a run" where
  "try_except m h =
     (case m of
        (t, Inl e) \<Rightarrow> (t, Inl (h e))
      | (t, Inr x) \<Rightarrow> (t, Inr x))"

subsection \<open>Paths and argument parsing (lines 20-53)\<close>

text \<open>\<open>os.path.join\<close> of \<open>posixpath\<close>: a component that starts with a slash replaces
  what came before it.\<close>

fun os_path_join :: "string \<Rightarrow> string list \<Rightarrow> string" where
  "os_path_join path [] = path"
| "os_path_join path (b # p) =
     os_path_join
       (if b \<noteq> [] \<and> hd b = CHR ''/'' then b
        else if path = [] \<or> last path = CHR ''/'' then path @ b
        else path @ ''/'' @ b) p"

text \<open>
  Line 20, \<open>PATH = os.path.dirname(os.path.abspath(__file__))\<close>, with the functions of
  \<open>posixpath\<close> it calls. \<open>split_sep\<close> is \<open>path.split('/')\<close> and \<open>join_sep\<close> is
  \<open>'/'.join(comps)\<close>.
\<close>

definition isabs :: "string \<Rightarrow> bool" where
  "isabs s = prefix ''/'' s"

fun split_sep :: "string \<Rightarrow> string list" where
  "split_sep [] = [[]]"
| "split_sep (c # cs) =
     (if c = CHR ''/'' then [] # split_sep cs
      else (case split_sep cs of
              [] \<Rightarrow> [[c]]
            | x # xs \<Rightarrow> (c # x) # xs))"

fun join_sep :: "string list \<Rightarrow> string" where
  "join_sep [] = []"
| "join_sep [x] = x"
| "join_sep (x # y # ys) = x @ ''/'' @ join_sep (y # ys)"

text \<open>The body of the loop of \<open>normpath\<close>: what one component does to \<open>new_comps\<close>.\<close>

definition norm_step :: "bool \<Rightarrow> string \<Rightarrow> string list \<Rightarrow> string list" where
  "norm_step initial_slashes part new_comps =
     (if part = [] \<or> part = ''.'' then new_comps
      else if part \<noteq> ''..'' \<or> (\<not> initial_slashes \<and> new_comps = [])
              \<or> (new_comps \<noteq> [] \<and> last new_comps = ''..'')
      then new_comps @ [part]
      else if new_comps \<noteq> [] then butlast new_comps
      else new_comps)"

definition normpath :: "string \<Rightarrow> string" where
  "normpath path =
     (if path = [] then ''.''
      else
        let initial_slashes =
              (if prefix ''//'' path \<and> \<not> prefix ''///'' path then 2
               else if prefix ''/'' path then 1 else (0::nat));
            comps = fold (norm_step (0 < initial_slashes)) (split_sep path) [];
            p = replicate initial_slashes CHR ''/'' @ join_sep comps
        in if p = [] then ''.'' else p)"

text \<open>\<open>abspath\<close>; \<open>cwd\<close> is what \<open>os.getcwd()\<close> returns.\<close>

definition abspath :: "string \<Rightarrow> string \<Rightarrow> string" where
  "abspath cwd path = normpath (if isabs path then path else os_path_join cwd [path])"

text \<open>\<open>dirname\<close>: the part up to the last slash, without its trailing slashes unless
  it consists of slashes only.\<close>

definition dirname :: "string \<Rightarrow> string" where
  "dirname p =
     (let head = rev (dropWhile (\<lambda>c. c \<noteq> CHR ''/'') (rev p))
      in if head \<noteq> [] \<and> head \<noteq> replicate (length head) CHR ''/''
         then rev (dropWhile (\<lambda>c. c = CHR ''/'') (rev head))
         else head)"

text \<open>The value of \<open>PATH\<close>, from the working directory and \<open>__file__\<close>.\<close>

definition module_PATH :: "string \<Rightarrow> string \<Rightarrow> string" where
  "module_PATH cwd file = dirname (abspath cwd file)"

definition dataset_choices :: "string list" where
  "dataset_choices = [''mnist'', ''cifar10'', ''celeba'']"

definition model_name_choices :: "string list" where
  "model_name_choices = [''ae'', ''vae'', ''beta_vae'', ''wae'', ''vamp'', ''hvae'', ''rhvae'']"

text \<open>
  What argparse does when a required option is missing or a value is not among the
  \<open>choices\<close>: \<open>parser.error\<close> prints the usage and calls \<open>sys.exit(2)\<close>.
\<close>

definition usage_exit :: exn where
  "usage_exit = Exn ''SystemExit'' ''2'' None"

text \<open>
  Lines 22-53. \<open>PATH\<close> is the value of line 20, the absolute directory of the script
  file. Both \<open>--dataset\<close> and \<open>--model_name\<close> are required and restricted to their
  choices; \<open>--model_config\<close> defaults to \<open>None\<close> and \<open>--training_config\<close> to the bundled
  file under \<open>PATH\<close>.
\<close>

definition parse_args :: "string \<Rightarrow> raw_args \<Rightarrow> exn + args" where
  "parse_args PATH raw =
     (case arg_dataset raw of
        None \<Rightarrow> Inl usage_exit
      | Some d \<Rightarrow>
          if d \<notin> set dataset_choices then Inl usage_exit
          else
            (case arg_model_name raw of
               None \<Rightarrow> Inl usage_exit
             | Some m \<Rightarrow>
                 if m \<notin> set model_name_choices then Inl usage_exit
                 else Inr \<lparr>dataset = d, model_name = m,
                           model_config = arg_model_config raw,
                           training_config =
                             (case arg_training_config raw of
                                None \<Rightarrow> os_path_join PATH [''configs/base_training_config.json'']
                              | Some p \<Rightarrow> p)\<rparr>))"

subsection \<open>Loading the data (lines 57-97)\<close>

definition select_arch :: "string \<Rightarrow> arch option" where
  "select_arch ds =
     (if ds = ''mnist'' then
        Some \<lparr>Encoder_AE = Encoder_AE_MNIST, Encoder_VAE = Encoder_VAE_MNIST,
              Decoder_AE = Decoder_AE_MNIST\<rparr>
      else if ds = ''cifar10'' then
        Some \<lparr>Encoder_AE = Encoder_AE_CIFAR, Encoder_VAE = Encoder_VAE_CIFAR,
              Decoder_AE = Decoder_AE_CIFAR\<rparr>
      else if ds = ''celeba'' then
        Some \<lparr>Encoder_AE = Encoder_AE_CELEBA, Encoder_VAE = Encoder_VAE_CELEBA,
              Decoder_AE = Decoder_AE_CELEBA\<rparr>
      else None)"

text \<open>\<open>a / 255.\<close>: every element divided by 255, the shape kept.\<close>

definition div255 :: "ndarray \<Rightarrow> ndarray" where
  "div255 a = a\<lparr>elems := map (\<lambda>x. x / 255) (elems a)\<rparr>"

text \<open>\<open>np.load(path)['data'] / 255.\<close>\<close>

definition load_array :: "env \<Rightarrow> string \<Rightarrow> ndarray run" where
  "load_array w path =
     bind_run (call (NpLoad path) (np_load w path)) (\<lambda>npz.
     bind_run ([], npz ''data'') (\<lambda>a.
     ret (div255 a)))"

definition train_path :: "string \<Rightarrow> string \<Rightarrow> string" where
  "train_path PATH ds = os_path_join PATH [''data/'' @ ds, ''train_data.npz'']"

definition eval_path :: "string \<Rightarrow> string \<Rightarrow> string" where
  "eval_path PATH ds = os_path_join PATH [''data/'' @ ds, ''eval_data.npz'']"

definition quoted :: "string \<Rightarrow> string" where
  "quoted s = [CHR 0x27] @ s @ [CHR 0x27]"

text \<open>The message of lines 83-87.\<close>

definition load_error_msg :: "string \<Rightarrow> exn \<Rightarrow> string" where
  "load_error_msg ds e =
     ''Unable to load the data from '' @ quoted (''data/'' @ ds)
     @ '' folder. Please check that both a '' @ quoted ''train_data.npz''
     @ '' and '' @ quoted ''eval_data.npz''
     @ '' are present in the folder.'' @ [CHR 0x0A] @ '' Data must be ''
     @ '' under the key '' @ quoted ''data''
     @ '', in the range [0-255] and shaped with channel in first ''
     @ ''position'' @ [CHR 0x0A]
     @ ''Exception raised: <class '' @ quoted (exn_class e) @ ''> with message: ''
     @ exn_msg e"

definition load_error :: "string \<Rightarrow> exn \<Rightarrow> exn" where
  "load_error ds e = Exn ''FileNotFoundError'' (load_error_msg ds e) (Some e)"

text \<open>Lines 75-88.\<close>

definition load_data :: "env \<Rightarrow> string \<Rightarrow> string \<Rightarrow> (ndarray \<times> ndarray) run" where
  "load_data w PATH ds =
     try_except
       (bind_run (emit (LogInfo (LoadingData ds))) (\<lambda>_.
        bind_run (load_array w (train_path PATH ds)) (\<lambda>train_data.
        bind_run (load_array w (eval_path PATH ds)) (\<lambda>eval_data.
        ret (train_data, eval_data)))))
       (load_error ds)"

text \<open>\<open>a.min()\<close> and \<open>a.max()\<close>, which raise on an array without elements.\<close>

definition amin :: "ndarray \<Rightarrow> exn + real" where
  "amin a =
     (case elems a of
        [] \<Rightarrow> Inl (Exn ''ValueError''
                ''zero-size array to reduction operation minimum which has no identity'' None)
      | x # xs \<Rightarrow> Inr (fold min xs x))"

definition amax :: "ndarray \<Rightarrow> exn + real" where
  "amax a =
     (case elems a of
        [] \<Rightarrow> Inl (Exn ''ValueError''
                ''zero-size array to reduction operation maximum which has no identity'' None)
      | x # xs \<Rightarrow> Inr (fold max xs x))"

definition split_summary :: "string \<Rightarrow> string \<Rightarrow> ndarray \<Rightarrow> unit run" where
  "split_summary ds which a =
     bind_run ([], amin a) (\<lambda>lo.
     bind_run ([], amax a) (\<lambda>hi.
     emit (LogInfo (SplitSummary ds which (shape a) lo hi))))"

text \<open>Lines 90-95.\<close>

definition report_data :: "string \<Rightarrow> ndarray \<Rightarrow> ndarray \<Rightarrow> unit run" where
  "report_data ds train_data eval_data =
     bind_run (emit (LogInfo LoadedData)) (\<lambda>_.
     bind_run (emit (LogInfo Rule60)) (\<lambda>_.
     bind_run (emit (LogInfo DataHeader)) (\<lambda>_.
     bind_run (split_summary ds ''train'' train_data) (\<lambda>_.
     bind_run (split_summary ds ''eval'' eval_data) (\<lambda>_.
     emit (LogInfo Rule60))))))"

subsection \<open>Building the model (lines 99-216)\<close>

definition unbound_local :: "string \<Rightarrow> exn" where
  "unbound_local v =
     Exn ''UnboundLocalError''
       (''local variable '' @ quoted v @ '' referenced before assignment'') None"

text \<open>
  Calling one of the three names of lines 57-73: when no branch there was taken the name
  is unbound.
\<close>

definition call_net ::
  "env \<Rightarrow> arch option \<Rightarrow> string \<Rightarrow> (arch \<Rightarrow> net_cls) \<Rightarrow> base_ae_config \<Rightarrow> nn_module run" where
  "call_net w names v sel cfg =
     (case names of
        None \<Rightarrow> raise (unbound_local v)
      | Some a \<Rightarrow> call (NewNet (sel a) cfg) (new_net w (sel a) cfg))"

text \<open>
  The body shared by the seven branches, each of which names its configuration class, its
  model class and its encoder; the arguments of the model constructor are evaluated in
  the order they are written (encoder, then decoder).
\<close>

definition build_branch ::
  "env \<Rightarrow> arch option \<Rightarrow> args \<Rightarrow> nat list \<Rightarrow> config_cls \<Rightarrow> model_cls
     \<Rightarrow> string \<Rightarrow> (arch \<Rightarrow> net_cls) \<Rightarrow> string \<Rightarrow> (arch \<Rightarrow> net_cls) \<Rightarrow> vae_model run" where
  "build_branch w names a data_input_dim ccls mcls enc_name enc dec_name dec =
     bind_run
       (case model_config a of
          Some path \<Rightarrow> call (FromJsonFile ccls path) (from_json_file w ccls path)
        | None \<Rightarrow> call (NewConfig ccls) (Inr (new_config w ccls))) (\<lambda>loaded.
     let cfg = loaded\<lparr>input_dim := Some data_input_dim\<rparr> in
     bind_run (call_net w names enc_name enc cfg) (\<lambda>e.
     bind_run (call_net w names dec_name dec cfg) (\<lambda>d.
     call (NewModel mcls cfg e d) (new_model w mcls cfg e d))))"

text \<open>
  The chain of lines 99-216, in its order. Without a matching branch \<open>model\<close> stays
  unbound (\<open>None\<close>).
\<close>

definition build_model ::
  "env \<Rightarrow> arch option \<Rightarrow> args \<Rightarrow> nat list \<Rightarrow> vae_model option run" where
  "build_model w names a data_input_dim =
     (if model_name a = ''ae'' then
        bind_run (build_branch w names a data_input_dim AEConfig AE
                    ''Encoder_AE'' Encoder_AE ''Decoder_AE'' Decoder_AE) (\<lambda>m. ret (Some m))
      else if model_name a = ''vae'' then
        bind_run (build_branch w names a data_input_dim VAEConfig VAE
                    ''Encoder_VAE'' Encoder_VAE ''Decoder_AE'' Decoder_AE) (\<lambda>m. ret (Some m))
      else if model_name a = ''wae'' then
        bind_run (build_branch w names a data_input_dim WAE_MMD_Config WAE_MMD
                    ''Encoder_AE'' Encoder_AE ''Decoder_AE'' Decoder_AE) (\<lambda>m. ret (Some m))
      else if model_name a = ''vamp'' then
        bind_run (build_branch w names a data_input_dim VAMPConfig VAMP
                    ''Encoder_VAE'' Encoder_VAE ''Decoder_AE'' Decoder_AE) (\<lambda>m. ret (Some m))
      else if model_name a = ''beta_vae'' then
        bind_run (build_branch w names a data_input_dim BetaVAEConfig BetaVAE
                    ''Encoder_VAE'' Encoder_VAE ''Decoder_AE'' Decoder_AE) (\<lambda>m. ret (Some m))
      else if model_name a = ''hvae'' then
        bind_run (build_branch w names a data_input_dim HVAEConfig HVAE
                    ''Encoder_VAE'' Encoder_VAE ''Decoder_AE'' Decoder_AE) (\<lambda>m. ret (Some m))
      else if model_name a = ''rhvae'' then
        bind_run (build_branch w names a data_input_dim RHVAEConfig RHVAE
                    ''Encoder_VAE'' Encoder_VAE ''Decoder_AE'' Decoder_AE) (\<lambda>m. ret (Some m))
      else ret None)"

subsection \<open>Reporting and training (lines 218-240)\<close>

text \<open>\<open>sum(p.numel() for p in ps if p.requires_grad)\<close>\<close>

definition num_param :: "param list \<Rightarrow> nat" where
  "num_param ps = sum_list (map numel (filter requires_grad ps))"

text \<open>Lines 218-227; the model is handed on to the rest of \<open>main\<close>.\<close>

definition report_model :: "string \<Rightarrow> vae_model option \<Rightarrow> vae_model run" where
  "report_model name bound =
     bind_run (emit (LogInfo (BuiltModel name))) (\<lambda>_.
     case bound of
       None \<Rightarrow> raise (unbound_local ''model'')
     | Some model \<Rightarrow>
         let encoder_num_param = num_param (parameters (encoder model));
             decoder_num_param = num_param (parameters (decoder model));
             total_num_param = num_param (parameters model)
         in
         bind_run (emit (LogInfo Rule70)) (\<lambda>_.
         bind_run (emit (LogInfo ParamHeader)) (\<lambda>_.
         bind_run (emit (LogInfo (ParamCounts name encoder_num_param decoder_num_param
                                    total_num_param))) (\<lambda>_.
         bind_run (emit (LogInfo Rule70)) (\<lambda>_.
         ret model)))))"

definition opt_result :: "exn option \<Rightarrow> exn + unit" where
  "opt_result r = (case r of None \<Rightarrow> Inr () | Some e \<Rightarrow> Inl e)"

text \<open>Lines 230-235: the training configuration is read, then the pipeline is created.\<close>

definition make_pipeline :: "env \<Rightarrow> args \<Rightarrow> vae_model \<Rightarrow> base_training_config run" where
  "make_pipeline w a model =
     bind_run (call (TrainingFromJsonFile (training_config a))
                 (training_from_json_file w (training_config a))) (\<lambda>tc.
     bind_run (call (NewPipeline tc model) (opt_result (new_pipeline w tc model))) (\<lambda>_.
     ret tc))"

subsection \<open>\<open>main\<close> and the script\<close>

text \<open>Lines 90-235: what \<open>main\<close> does between loading the data and calling the pipeline.\<close>

definition prepare ::
  "env \<Rightarrow> arch option \<Rightarrow> args \<Rightarrow> ndarray \<Rightarrow> ndarray
     \<Rightarrow> (vae_model \<times> base_training_config) run" where
  "prepare w names a train_data eval_data =
     bind_run (report_data (dataset a) train_data eval_data) (\<lambda>_.
     let data_input_dim = tl (shape train_data) in
     bind_run (build_model w names a data_input_dim) (\<lambda>bound.
     bind_run (report_model (model_name a) bound) (\<lambda>model.
     bind_run (make_pipeline w a model) (\<lambda>tc.
     ret (model, tc)))))"

definition main :: "env \<Rightarrow> string \<Rightarrow> args \<Rightarrow> unit run" where
  "main w PATH a =
     (let names = select_arch (dataset a) in
      bind_run (load_data w PATH (dataset a)) (\<lambda>(train_data, eval_data).
      bind_run (prepare w names a train_data eval_data) (\<lambda>(model, tc).
      call (CallPipeline model train_data eval_data)
        (opt_result (call_pipeline w tc model train_data eval_data)))))"

text \<open>Lines 22-245 for a value of \<open>PATH\<close>: line 53 parses the arguments, line 245
  calls \<open>main\<close>.\<close>

definition script :: "env \<Rightarrow> string \<Rightarrow> raw_args \<Rightarrow> unit run" where
  "script w PATH raw =
     (case parse_args PATH raw of
        Inl e \<Rightarrow> raise e
      | Inr a \<Rightarrow> main w PATH a)"

text \<open>The module as it is run: line 20 sets \<open>PATH\<close>, the rest follows.\<close>

definition training_script :: "env \<Rightarrow> string \<Rightarrow> string \<Rightarrow> raw_args \<Rightarrow> unit run" where
  "training_script w cwd file raw = script w (module_PATH cwd file) raw"

subsection \<open>Reading a trace\<close>

text \<open>
  A path written as its components, \<open>/c1/c2/.../cn\<close>, and what a component of such a
  path is: not empty, without a slash, neither \<open>.\<close> nor \<open>..\<close>.
\<close>

definition path_of :: "string list \<Rightarrow> string" where
  "path_of cs = concat (map (\<lambda>c. CHR ''/'' # c) cs)"

definition is_component :: "string \<Rightarrow> bool" where
  "is_component c = (c \<noteq> [] \<and> CHR ''/'' \<notin> set c \<and> c \<noteq> ''.'' \<and> c \<noteq> ''..'')"


text \<open>The configuration a constructor call was given.\<close>

fun event_config :: "event \<Rightarrow> base_ae_config option" where
  "event_config (NewNet c cfg) = Some cfg"
| "event_config (NewModel c cfg e d) = Some cfg"
| "event_config _ = None"

fun is_log :: "event \<Rightarrow> bool" where
  "is_log (LogInfo l) = True"
| "is_log _ = False"

fun is_np_load :: "event \<Rightarrow> bool" where
  "is_np_load (NpLoad p) = True"
| "is_np_load _ = False"

fun is_training_config_load :: "event \<Rightarrow> bool" where
  "is_training_config_load (TrainingFromJsonFile p) = True"
| "is_training_config_load _ = False"

fun is_pipeline :: "event \<Rightarrow> bool" where
  "is_pipeline (NewPipeline tc m) = True"
| "is_pipeline (CallPipeline m t e) = True"
| "is_pipeline _ = False"

fun is_config_source :: "event \<Rightarrow> bool" where
  "is_config_source (FromJsonFile c p) = True"
| "is_config_source (NewConfig c) = True"
| "is_config_source _ = False"

fun is_build :: "event \<Rightarrow> bool" where
  "is_build (FromJsonFile c p) = True"
| "is_build (NewConfig c) = True"
| "is_build (NewNet c cfg) = True"
| "is_build (NewModel c cfg e d) = True"
| "is_build _ = False"

fun is_param_counts :: "event \<Rightarrow> bool" where
  "is_param_counts (LogInfo (ParamCounts n e d t)) = True"
| "is_param_counts _ = False"

text \<open>
  The spec's table of model families: the configuration schema and the model class that
  belong to a family, and the families of the autoencoding class.
\<close>

definition family_config_cls :: "string \<Rightarrow> config_cls option" where
  "family_config_cls =
     map_of [(''ae'', AEConfig), (''vae'', VAEConfig), (''beta_vae'', BetaVAEConfig),
             (''wae'', WAE_MMD_Config), (''vamp'', VAMPConfig), (''hvae'', HVAEConfig),
             (''rhvae'', RHVAEConfig)]"

definition family_model_cls :: "string \<Rightarrow> model_cls option" where
  "family_model_cls =
     map_of [(''ae'', AE), (''vae'', VAE), (''beta_vae'', BetaVAE),
             (''wae'', WAE_MMD), (''vamp'', VAMP), (''hvae'', HVAE),
             (''rhvae'', RHVAE)]"

definition ae_style :: "string list" where
  "ae_style = [''ae'', ''wae'']"

definition vae_style :: "string list" where
  "vae_style = [''vae'', ''beta_vae'', ''vamp'', ''hvae'', ''rhvae'']"

subsection \<open>A concrete world\<close>

text \<open>
  A small world to run the script in: the script lives in \<open>/repo/examples/scripts\<close>, only
  the mnist files exist, the train array holds two 1 x 2 x 2 samples (two of its values
  lie outside 0..255) and the eval array one 3 x 1 x 1 sample. The file \<open>model.json\<close>
  gives an \<open>input_dim\<close> of its own. Every network has one trainable and one frozen
  parameter, and the RHVAE model owns a third module beside its encoder and decoder.
\<close>

definition demo_PATH :: string where
  "demo_PATH = ''/repo/examples/scripts''"

definition demo_cwd :: string where
  "demo_cwd = ''/home/user''"

definition demo_file :: string where
  "demo_file = ''/repo/examples/scripts/training.py''"

definition demo_train :: ndarray where
  "demo_train = \<lparr>shape = [2, 1, 2, 2], elems = [0, 255, 51, 510, -51, 0, 0, 204]\<rparr>"

definition demo_eval :: ndarray where
  "demo_eval = \<lparr>shape = [1, 3, 1, 1], elems = [0, 255, 102]\<rparr>"

definition no_such_file :: "string \<Rightarrow> exn" where
  "no_such_file p =
     Exn ''FileNotFoundError'' (''[Errno 2] No such file or directory: '' @ quoted p) None"

definition demo_npz :: "ndarray \<Rightarrow> string \<Rightarrow> exn + ndarray" where
  "demo_npz a k =
     (if k = ''data'' then Inr a
      else Inl (Exn ''KeyError'' (quoted (k @ '' is not a file in the archive'')) None))"

definition demo_env :: env where
  "demo_env =
     \<lparr>np_load = (\<lambda>p.
        if p = ''/repo/examples/scripts/data/mnist/train_data.npz'' then Inr (demo_npz demo_train)
        else if p = ''/repo/examples/scripts/data/mnist/eval_data.npz'' then Inr (demo_npz demo_eval)
        else Inl (no_such_file p)),
      from_json_file = (\<lambda>c p.
        if p = ''model.json''
        then Inr \<lparr>input_dim = Some [3, 32, 32], hparams = [(''latent_dim'', ''16'')]\<rparr>
        else Inl (no_such_file p)),
      new_config = (\<lambda>c. \<lparr>input_dim = None, hparams = [(''latent_dim'', ''10'')]\<rparr>),
      new_net = (\<lambda>c cfg.
        Inr \<lparr>parameters = [\<lparr>numel = 6, requires_grad = True\<rparr>,
                           \<lparr>numel = 2, requires_grad = False\<rparr>]\<rparr>),
      new_model = (\<lambda>m cfg e d.
        Inr \<lparr>parameters = parameters e @ parameters d
                 @ (if m = RHVAE then [\<lparr>numel = 3, requires_grad = True\<rparr>] else []),
             encoder = e, decoder = d\<rparr>),
      training_from_json_file = (\<lambda>p.
        if p = ''/repo/examples/scripts/configs/base_training_config.json''
        then Inr [(''num_epochs'', ''10'')]
        else Inl (Exn ''json.decoder.JSONDecodeError''
                    ''Expecting value: line 1 column 1 (char 0)'' None)),
      new_pipeline = (\<lambda>tc m. None),
      call_pipeline = (\<lambda>tc m t e. None)\<rparr>"

definition demo_raw :: raw_args where
  "demo_raw =
     \<lparr>arg_dataset = Some ''mnist'', arg_model_name = Some ''vae'',
      arg_model_config = None, arg_training_config = None\<rparr>"

definition demo_args :: args where
  "demo_args =
     \<lparr>dataset = ''mnist'', model_name = ''vae'', model_config = None,
      training_config = ''/repo/examples/scripts/configs/base_training_config.json''\<rparr>"

definition demo_net :: nn_module where
  "demo_net = \<lparr>parameters = [\<lparr>numel = 6, requires_grad = True\<rparr>,
                              \<lparr>numel = 2, requires_grad = False\<rparr>]\<rparr>"

definition demo_config :: "(string \<times> string) list \<Rightarrow> base_ae_config" where
  "demo_config hp = \<lparr>input_dim = Some [1, 2, 2], hparams = hp\<rparr>"

section \<open>Properties\<close>

subsection \<open>Sequencing\<close>

lemma fst_bind_run:
  "fst (bind_run m f) = fst m @ (case snd m of Inl e \<Rightarrow> [] | Inr x \<Rightarrow> fst (f x))"
  by (cases m) (simp add: bind_run_def split: sum.splits prod.splits)

lemma snd_bind_run:
  "snd (bind_run m f) = (case snd m of Inl e \<Rightarrow> Inl e | Inr x \<Rightarrow> snd (f x))"
  by (cases m) (simp add: bind_run_def split: sum.splits prod.splits)

lemma set_bind_run:
  "ev \<in> set (fst (bind_run m f)) \<longleftrightarrow>
     ev \<in> set (fst m) \<or> (\<exists>x. snd m = Inr x \<and> ev \<in> set (fst (f x)))"
  by (auto simp add: fst_bind_run split: sum.splits)

lemma snd_bind_run_Inr:
  "snd (bind_run m f) = Inr y \<longleftrightarrow> (\<exists>x. snd m = Inr x \<and> snd (f x) = Inr y)"
  by (auto simp add: snd_bind_run split: sum.splits)

lemma fst_try_except: "fst (try_except m h) = fst m"
  by (cases m) (simp add: try_except_def split: sum.splits)

lemma snd_try_except:
  "snd (try_except m h) = (case snd m of Inl e \<Rightarrow> Inl (h e) | Inr x \<Rightarrow> Inr x)"
  by (cases m) (simp add: try_except_def split: sum.splits)

lemma run_simps:
  "fst (ret x) = []" "snd (ret x) = Inr x"
  "fst (raise e) = []" "snd (raise e) = Inl e"
  "fst (emit ev) = [ev]" "snd (emit ev) = Inr ()"
  "fst (call ev r) = [ev]" "snd (call ev r) = r"
  by (simp_all add: ret_def raise_def emit_def call_def)

subsection \<open>Loading\<close>

lemma load_array_trace: "fst (load_array w p) = [NpLoad p]"
  by (simp add: load_array_def fst_bind_run run_simps split: sum.splits)

lemma load_array_result:
  "snd (load_array w p) =
     (case np_load w p of
        Inl e \<Rightarrow> Inl e
      | Inr npz \<Rightarrow> (case npz ''data'' of Inl e \<Rightarrow> Inl e | Inr a \<Rightarrow> Inr (div255 a)))"
  by (simp add: load_array_def snd_bind_run run_simps split: sum.splits)

lemma load_data_trace:
  "fst (load_data w PATH ds) =
     LogInfo (LoadingData ds) # NpLoad (train_path PATH ds)
       # (case snd (load_array w (train_path PATH ds)) of
            Inl e \<Rightarrow> []
          | Inr a \<Rightarrow> [NpLoad (eval_path PATH ds)])"
  by (simp add: load_data_def fst_try_except fst_bind_run run_simps load_array_trace
      split: sum.splits)

lemma load_data_result:
  "snd (load_data w PATH ds) =
     (case snd (load_array w (train_path PATH ds)) of
        Inl c \<Rightarrow> Inl (load_error ds c)
      | Inr tr \<Rightarrow>
          (case snd (load_array w (eval_path PATH ds)) of
             Inl c \<Rightarrow> Inl (load_error ds c)
           | Inr ev \<Rightarrow> Inr (tr, ev)))"
  by (simp add: load_data_def snd_try_except snd_bind_run run_simps split: sum.splits)

lemma split_summary_logs: "x \<in> set (fst (split_summary ds which a)) \<Longrightarrow> is_log x"
  by (auto simp add: split_summary_def set_bind_run run_simps)

lemma split_summary_result:
  "snd (split_summary ds which a) =
     (if elems a = [] then
        Inl (Exn ''ValueError''
               ''zero-size array to reduction operation minimum which has no identity'' None)
      else Inr ())"
  by (simp add: split_summary_def snd_bind_run run_simps amin_def amax_def split: list.splits)

lemma report_data_logs: "x \<in> set (fst (report_data ds t e)) \<Longrightarrow> is_log x"
  by (auto simp add: report_data_def set_bind_run run_simps dest: split_summary_logs)

lemma report_data_result:
  "snd (report_data ds t e) =
     (if elems t = [] \<or> elems e = [] then
        Inl (Exn ''ValueError''
               ''zero-size array to reduction operation minimum which has no identity'' None)
      else Inr ())"
  by (simp add: report_data_def snd_bind_run run_simps split_summary_result)

subsection \<open>Building\<close>

lemma call_net_eq:
  "call_net w names v sel cfg =
     (case names of
        None \<Rightarrow> ([], Inl (unbound_local v))
      | Some ar \<Rightarrow> ([NewNet (sel ar) cfg], new_net w (sel ar) cfg))"
  by (simp add: call_net_def raise_def call_def split: option.splits)

lemma build_branch_is_build:
  "x \<in> set (fst (build_branch w names a di cc mc en enc dn dec)) \<Longrightarrow> is_build x"
  by (auto simp add: build_branch_def Let_def set_bind_run run_simps call_net_eq
      split: option.splits)

lemma build_branch_config:
  assumes "x \<in> set (fst (build_branch w names a di cc mc en enc dn dec))"
    and "event_config x = Some cfg"
  shows "input_dim cfg = Some di \<and>
         (case model_config a of
            None \<Rightarrow> cfg = (new_config w cc)\<lparr>input_dim := Some di\<rparr>
          | Some p \<Rightarrow> \<exists>loaded. from_json_file w cc p = Inr loaded
                        \<and> cfg = loaded\<lparr>input_dim := Some di\<rparr>)"
  using assms
  by (auto simp add: build_branch_def Let_def set_bind_run run_simps call_net_eq
      split: option.splits)

lemma build_branch_sources:
  "filter is_config_source (fst (build_branch w names a di cc mc en enc dn dec)) =
     [case model_config a of None \<Rightarrow> NewConfig cc | Some p \<Rightarrow> FromJsonFile cc p]"
  by (auto simp add: build_branch_def Let_def fst_bind_run run_simps call_net_eq
      split: option.splits sum.splits)

lemma build_branch_new_model:
  assumes "NewModel mc' cfg e d \<in> set (fst (build_branch w names a di cc mc en enc dn dec))"
  shows "\<exists>ar src. names = Some ar \<and> mc' = mc \<and> is_config_source src
           \<and> fst (build_branch w names a di cc mc en enc dn dec)
               = [src, NewNet (enc ar) cfg, NewNet (dec ar) cfg, NewModel mc cfg e d]
           \<and> new_net w (enc ar) cfg = Inr e \<and> new_net w (dec ar) cfg = Inr d
           \<and> snd (build_branch w names a di cc mc en enc dn dec) = new_model w mc cfg e d"
  using assms
  by (auto simp add: build_branch_def Let_def fst_bind_run snd_bind_run run_simps call_net_eq
      split: option.splits sum.splits)

lemma build_branch_ok:
  assumes "snd (build_branch w names a di cc mc en enc dn dec) = Inr m"
  shows "\<exists>cfg e d. NewModel mc cfg e d \<in> set (fst (build_branch w names a di cc mc en enc dn dec))
           \<and> new_model w mc cfg e d = Inr m"
  using assms
  by (auto simp add: build_branch_def Let_def fst_bind_run snd_bind_run run_simps call_net_eq
      split: option.splits sum.splits)

lemma bind_ret_Some:
  "fst (bind_run m (\<lambda>x. ret (Some x))) = fst m"
  "snd (bind_run m (\<lambda>x. ret (Some x))) = (case snd m of Inl e \<Rightarrow> Inl e | Inr x \<Rightarrow> Inr (Some x))"
  by (simp_all add: fst_bind_run snd_bind_run run_simps split: sum.splits)

lemma build_model_table:
  "build_model w names a di =
     (if model_name a \<in> set model_name_choices then
        bind_run
          (build_branch w names a di
             (the (family_config_cls (model_name a))) (the (family_model_cls (model_name a)))
             (if model_name a \<in> set ae_style then ''Encoder_AE'' else ''Encoder_VAE'')
             (if model_name a \<in> set ae_style then Encoder_AE else Encoder_VAE)
             ''Decoder_AE'' Decoder_AE)
          (\<lambda>m. ret (Some m))
      else ret None)"
  by (auto simp add: build_model_def model_name_choices_def family_config_cls_def
      family_model_cls_def ae_style_def)

lemma build_model_is_build:
  "x \<in> set (fst (build_model w names a di)) \<Longrightarrow> is_build x"
  by (auto simp add: build_model_table bind_ret_Some run_simps
      dest: build_branch_is_build split: if_splits)

lemma build_model_config:
  assumes "x \<in> set (fst (build_model w names a di))" and "event_config x = Some cfg"
  shows "input_dim cfg = Some di \<and>
         (\<exists>cc. family_config_cls (model_name a) = Some cc \<and>
            (case model_config a of
               None \<Rightarrow> cfg = (new_config w cc)\<lparr>input_dim := Some di\<rparr>
                        \<and> filter is_config_source (fst (build_model w names a di)) = [NewConfig cc]
             | Some p \<Rightarrow> (\<exists>loaded. from_json_file w cc p = Inr loaded
                             \<and> cfg = loaded\<lparr>input_dim := Some di\<rparr>)
                        \<and> filter is_config_source (fst (build_model w names a di))
                            = [FromJsonFile cc p]))"
proof -
  from assms(1) have n: "model_name a \<in> set model_name_choices"
    by (auto simp add: build_model_table run_simps split: if_splits)
  then obtain cc where cc: "family_config_cls (model_name a) = Some cc"
    by (auto simp add: model_name_choices_def family_config_cls_def)
  let ?b = "build_branch w names a di cc (the (family_model_cls (model_name a)))
             (if model_name a \<in> set ae_style then ''Encoder_AE'' else ''Encoder_VAE'')
             (if model_name a \<in> set ae_style then Encoder_AE else Encoder_VAE)
             ''Decoder_AE'' Decoder_AE"
  have t: "fst (build_model w names a di) = fst ?b"
    using n cc by (simp add: build_model_table bind_ret_Some)
  from assms(1) t have "x \<in> set (fst ?b)" by simp
  from build_branch_config [OF this assms(2)] build_branch_sources [of w names a di cc]
  show ?thesis using cc t by (auto split: option.splits)
qed

lemma build_model_new_model:
  assumes "NewModel mc cfg e d \<in> set (fst (build_model w names a di))"
  shows "\<exists>ar src. names = Some ar \<and> family_model_cls (model_name a) = Some mc
           \<and> is_config_source src
           \<and> fst (build_model w names a di)
               = [src, NewNet (if model_name a \<in> set ae_style then Encoder_AE ar
                               else Encoder_VAE ar) cfg,
                  NewNet (Decoder_AE ar) cfg, NewModel mc cfg e d]
           \<and> new_net w (if model_name a \<in> set ae_style then Encoder_AE ar
                         else Encoder_VAE ar) cfg = Inr e
           \<and> new_net w (Decoder_AE ar) cfg = Inr d
           \<and> snd (build_model w names a di)
               = (case new_model w mc cfg e d of Inl x \<Rightarrow> Inl x | Inr m \<Rightarrow> Inr (Some m))
           \<and> (model_name a \<in> set ae_style \<or> model_name a \<in> set vae_style)"
proof -
  from assms(1) have n: "model_name a \<in> set model_name_choices"
    by (auto simp add: build_model_table run_simps split: if_splits)
  then obtain mc0 where mc0: "family_model_cls (model_name a) = Some mc0"
    by (auto simp add: model_name_choices_def family_model_cls_def)
  from n have st: "model_name a \<in> set ae_style \<or> model_name a \<in> set vae_style"
    by (auto simp add: model_name_choices_def ae_style_def vae_style_def)
  let ?b = "build_branch w names a di (the (family_config_cls (model_name a))) mc0
             (if model_name a \<in> set ae_style then ''Encoder_AE'' else ''Encoder_VAE'')
             (if model_name a \<in> set ae_style then Encoder_AE else Encoder_VAE)
             ''Decoder_AE'' Decoder_AE"
  have t: "fst (build_model w names a di) = fst ?b"
    and r: "snd (build_model w names a di)
              = (case snd ?b of Inl x \<Rightarrow> Inl x | Inr m \<Rightarrow> Inr (Some m))"
    using n mc0 by (simp_all add: build_model_table bind_ret_Some)
  from assms t have "NewModel mc cfg e d \<in> set (fst ?b)" by simp
  from build_branch_new_model [OF this] show ?thesis
    using t r mc0 st by (auto split: if_splits)
qed

lemma build_model_ok:
  assumes "snd (build_model w names a di) = Inr (Some m)"
  shows "\<exists>mc cfg e d. NewModel mc cfg e d \<in> set (fst (build_model w names a di))
           \<and> new_model w mc cfg e d = Inr m"
  using assms
  by (auto simp add: build_model_table bind_ret_Some run_simps
      split: if_splits sum.splits dest!: build_branch_ok)

subsection \<open>Reporting and the pipeline\<close>

lemma report_model_trace:
  "fst (report_model n bound) =
     (case bound of
        None \<Rightarrow> [LogInfo (BuiltModel n)]
      | Some m \<Rightarrow>
          [LogInfo (BuiltModel n), LogInfo Rule70, LogInfo ParamHeader,
           LogInfo (ParamCounts n (num_param (parameters (encoder m)))
                      (num_param (parameters (decoder m))) (num_param (parameters m))),
           LogInfo Rule70])"
  by (simp add: report_model_def Let_def fst_bind_run run_simps split: option.splits)

lemma report_model_result:
  "snd (report_model n bound) =
     (case bound of None \<Rightarrow> Inl (unbound_local ''model'') | Some m \<Rightarrow> Inr m)"
  by (simp add: report_model_def Let_def snd_bind_run run_simps split: option.splits)

lemma report_model_logs: "x \<in> set (fst (report_model n bound)) \<Longrightarrow> is_log x"
  by (auto simp add: report_model_trace split: option.splits)

lemma make_pipeline_trace:
  "fst (make_pipeline w a m) =
     TrainingFromJsonFile (training_config a)
       # (case training_from_json_file w (training_config a) of
            Inl e \<Rightarrow> []
          | Inr tc \<Rightarrow> [NewPipeline tc m])"
  by (simp add: make_pipeline_def fst_bind_run run_simps split: sum.splits)

lemma make_pipeline_result:
  "snd (make_pipeline w a m) =
     (case training_from_json_file w (training_config a) of
        Inl e \<Rightarrow> Inl e
      | Inr tc \<Rightarrow> (case new_pipeline w tc m of Some e \<Rightarrow> Inl e | None \<Rightarrow> Inr tc))"
  by (simp add: make_pipeline_def snd_bind_run run_simps opt_result_def
      split: sum.splits option.splits)

subsection \<open>The trace of \<open>main\<close>\<close>

lemma prepare_trace:
  "fst (prepare w names a tr ev) =
     fst (report_data (dataset a) tr ev)
     @ (case snd (report_data (dataset a) tr ev) of
          Inl e \<Rightarrow> []
        | Inr u \<Rightarrow>
            fst (build_model w names a (tl (shape tr)))
            @ (case snd (build_model w names a (tl (shape tr))) of
                 Inl e \<Rightarrow> []
               | Inr bound \<Rightarrow>
                   fst (report_model (model_name a) bound)
                   @ (case bound of None \<Rightarrow> [] | Some m \<Rightarrow> fst (make_pipeline w a m))))"
  by (simp add: prepare_def Let_def fst_bind_run run_simps report_model_result
      split: sum.splits option.splits)

lemma prepare_result:
  "snd (prepare w names a tr ev) =
     (case snd (report_data (dataset a) tr ev) of
        Inl e \<Rightarrow> Inl e
      | Inr u \<Rightarrow>
          (case snd (build_model w names a (tl (shape tr))) of
             Inl e \<Rightarrow> Inl e
           | Inr bound \<Rightarrow>
               (case bound of
                  None \<Rightarrow> Inl (unbound_local ''model'')
                | Some m \<Rightarrow>
                    (case snd (make_pipeline w a m) of
                       Inl e \<Rightarrow> Inl e
                     | Inr tc \<Rightarrow> Inr (m, tc)))))"
  by (simp add: prepare_def Let_def snd_bind_run run_simps report_model_result
      split: sum.splits option.splits)

lemma main_trace:
  "fst (main w PATH a) =
     fst (load_data w PATH (dataset a))
     @ (case snd (load_data w PATH (dataset a)) of
          Inl e \<Rightarrow> []
        | Inr d \<Rightarrow>
            fst (prepare w (select_arch (dataset a)) a (fst d) (snd d))
            @ (case snd (prepare w (select_arch (dataset a)) a (fst d) (snd d)) of
                 Inl e \<Rightarrow> []
               | Inr p \<Rightarrow> [CallPipeline (fst p) (fst d) (snd d)]))"
  by (simp add: main_def Let_def fst_bind_run run_simps split: sum.splits prod.splits)

lemma main_result:
  "snd (main w PATH a) =
     (case snd (load_data w PATH (dataset a)) of
        Inl e \<Rightarrow> Inl e
      | Inr d \<Rightarrow>
          (case snd (prepare w (select_arch (dataset a)) a (fst d) (snd d)) of
             Inl e \<Rightarrow> Inl e
           | Inr p \<Rightarrow> opt_result (call_pipeline w (snd p) (fst p) (fst d) (snd d))))"
  by (simp add: main_def Let_def snd_bind_run run_simps split: sum.splits prod.splits)

lemma is_build_kinds:
  "is_build x \<Longrightarrow> \<not> is_log x \<and> \<not> is_np_load x \<and> \<not> is_training_config_load x \<and> \<not> is_pipeline x"
  by (cases x) simp_all

lemma event_config_is_build: "event_config x = Some cfg \<Longrightarrow> is_build x"
  by (cases x) simp_all

lemma is_config_source_is_build: "is_config_source x \<Longrightarrow> is_build x"
  by (cases x) simp_all

lemma load_data_kinds:
  "x \<in> set (fst (load_data w PATH ds)) \<Longrightarrow>
     x = LogInfo (LoadingData ds) \<or> x = NpLoad (train_path PATH ds) \<or> x = NpLoad (eval_path PATH ds)"
  by (auto simp add: load_data_trace split: sum.splits)

lemma make_pipeline_kinds:
  "x \<in> set (fst (make_pipeline w a m)) \<Longrightarrow>
     x = TrainingFromJsonFile (training_config a) \<or>
     (\<exists>tc. training_from_json_file w (training_config a) = Inr tc \<and> x = NewPipeline tc m)"
  by (auto simp add: make_pipeline_trace split: sum.splits)

lemma filter_none: "(\<And>x. x \<in> set xs \<Longrightarrow> \<not> P x) \<Longrightarrow> filter P xs = []"
  by (simp add: filter_empty_conv)

lemma filter_all: "(\<And>x. x \<in> set xs \<Longrightarrow> P x) \<Longrightarrow> filter P xs = xs"
  by (simp add: filter_id_conv)

lemma filter_build_load: "filter is_build (fst (load_data w PATH ds)) = []"
  by (rule filter_none) (auto dest: load_data_kinds)

lemma filter_build_report_data: "filter is_build (fst (report_data ds t e)) = []"
  by (rule filter_none) (auto dest!: report_data_logs is_build_kinds)

lemma filter_build_report_model: "filter is_build (fst (report_model n b)) = []"
  by (rule filter_none) (auto dest!: report_model_logs is_build_kinds)

lemma filter_build_make_pipeline: "filter is_build (fst (make_pipeline w a m)) = []"
  by (rule filter_none) (auto dest: make_pipeline_kinds)

lemma filter_build_build_model:
  "filter is_build (fst (build_model w names a di)) = fst (build_model w names a di)"
  by (rule filter_all) (rule build_model_is_build)

lemma main_build_calls:
  "filter is_build (fst (main w PATH a)) =
     (case snd (load_data w PATH (dataset a)) of
        Inl e \<Rightarrow> []
      | Inr d \<Rightarrow>
          (case snd (report_data (dataset a) (fst d) (snd d)) of
             Inl e \<Rightarrow> []
           | Inr u \<Rightarrow> fst (build_model w (select_arch (dataset a)) a (tl (shape (fst d))))))"
  by (simp add: main_trace prepare_trace filter_build_load filter_build_report_data
      filter_build_report_model filter_build_make_pipeline filter_build_build_model
      split: sum.splits option.splits)

lemma main_build_events:
  assumes "x \<in> set (fst (main w PATH a))" and "is_build x"
  shows "\<exists>tr ev. snd (load_data w PATH (dataset a)) = Inr (tr, ev)
           \<and> x \<in> set (fst (build_model w (select_arch (dataset a)) a (tl (shape tr))))"
proof -
  from assms have "x \<in> set (filter is_build (fst (main w PATH a)))" by simp
  then show ?thesis
    by (cases "snd (load_data w PATH (dataset a))")
       (auto simp add: main_build_calls split: sum.splits)
qed

lemma build_events_in_main:
  assumes "x \<in> set (fst (main w PATH a))" and "is_build x"
    and "snd (load_data w PATH (dataset a)) = Inr (tr, ev)"
  shows "filter is_build (fst (main w PATH a))
           = fst (build_model w (select_arch (dataset a)) a (tl (shape tr)))"
proof -
  from assms have "x \<in> set (filter is_build (fst (main w PATH a)))" by simp
  then show ?thesis using assms(3)
    by (cases "snd (report_data (dataset a) tr ev)") (simp_all add: main_build_calls)
qed

lemma load_data_shape:
  assumes "snd (load_data w PATH ds) = Inr (tr, ev)"
    and "np_load w (train_path PATH ds) = Inr npz" and "npz ''data'' = Inr raw"
  shows "tr = div255 raw"
  using assms by (auto simp add: load_data_result load_array_result split: sum.splits)

lemma build_branch_trace:
  "fst (build_branch w names a di cc mc en enc dn dec) =
     (case model_config a of None \<Rightarrow> NewConfig cc | Some p \<Rightarrow> FromJsonFile cc p)
     # (case (case model_config a of
                None \<Rightarrow> Inr (new_config w cc)
              | Some p \<Rightarrow> from_json_file w cc p) of
          Inl x \<Rightarrow> []
        | Inr loaded \<Rightarrow>
            (case names of
               None \<Rightarrow> []
             | Some ar \<Rightarrow>
                 NewNet (enc ar) (loaded\<lparr>input_dim := Some di\<rparr>)
                 # (case new_net w (enc ar) (loaded\<lparr>input_dim := Some di\<rparr>) of
                      Inl x \<Rightarrow> []
                    | Inr e \<Rightarrow>
                        NewNet (dec ar) (loaded\<lparr>input_dim := Some di\<rparr>)
                        # (case new_net w (dec ar) (loaded\<lparr>input_dim := Some di\<rparr>) of
                             Inl x \<Rightarrow> []
                           | Inr d \<Rightarrow>
                               [NewModel mc (loaded\<lparr>input_dim := Some di\<rparr>) e d]))))"
  by (simp add: build_branch_def Let_def fst_bind_run run_simps call_net_eq
      split: option.splits sum.splits)

lemma build_branch_result:
  "snd (build_branch w names a di cc mc en enc dn dec) =
     (case (case model_config a of
              None \<Rightarrow> Inr (new_config w cc)
            | Some p \<Rightarrow> from_json_file w cc p) of
        Inl x \<Rightarrow> Inl x
      | Inr loaded \<Rightarrow>
          (case names of
             None \<Rightarrow> Inl (unbound_local en)
           | Some ar \<Rightarrow>
               (case new_net w (enc ar) (loaded\<lparr>input_dim := Some di\<rparr>) of
                  Inl x \<Rightarrow> Inl x
                | Inr e \<Rightarrow>
                    (case new_net w (dec ar) (loaded\<lparr>input_dim := Some di\<rparr>) of
                       Inl x \<Rightarrow> Inl x
                     | Inr d \<Rightarrow> new_model w mc (loaded\<lparr>input_dim := Some di\<rparr>) e d))))"
  by (simp add: build_branch_def Let_def snd_bind_run run_simps call_net_eq
      split: option.splits sum.splits)

lemma split_summary_trace:
  "fst (split_summary ds which a) =
     (case elems a of
        [] \<Rightarrow> []
      | x # xs \<Rightarrow> [LogInfo (SplitSummary ds which (shape a) (fold min xs x) (fold max xs x))])"
  by (simp add: split_summary_def fst_bind_run run_simps amin_def amax_def split: list.splits)

lemma report_data_trace:
  "fst (report_data ds t e) =
     [LogInfo LoadedData, LogInfo Rule60, LogInfo DataHeader]
     @ fst (split_summary ds ''train'' t)
     @ (if elems t = [] then []
        else fst (split_summary ds ''eval'' e) @ (if elems e = [] then [] else [LogInfo Rule60]))"
  by (simp add: report_data_def fst_bind_run run_simps split_summary_result)

text \<open>The facts a concrete run is evaluated with.\<close>

lemmas run_eval =
  main_trace main_result prepare_trace prepare_result load_data_trace load_data_result
  load_array_result report_data_trace report_data_result split_summary_trace
  build_model_table bind_ret_Some build_branch_trace build_branch_result
  report_model_trace report_model_result make_pipeline_trace make_pipeline_result

lemmas stage_defs = script_def parse_args_def select_arch_def div255_def
  train_path_def eval_path_def num_param_def opt_result_def load_error_def
  dataset_choices_def model_name_choices_def usage_exit_def raise_def
  family_config_cls_def family_model_cls_def ae_style_def vae_style_def

lemmas demo_defs = demo_env_def demo_args_def demo_raw_def demo_PATH_def demo_train_def
  demo_eval_def demo_npz_def demo_net_def demo_config_def no_such_file_def

subsection \<open>Argument parsing\<close>




subsection \<open>The model configuration\<close>

text \<open>
  C1. Whatever the model name and whether the configuration came from the default
  constructor or from a file (and whatever \<open>input_dim\<close> that file gave), every network
  and model constructor called by \<open>main\<close> receives a configuration whose \<open>input_dim\<close>
  is the shape of the train array without its first axis.
\<close>

theorem input_dim_overwritten:
  assumes "np_load w (train_path PATH (dataset a)) = Inr npz" and "npz ''data'' = Inr raw"
    and "x \<in> set (fst (main w PATH a))" and "event_config x = Some cfg"
  shows "input_dim cfg = Some (tl (shape raw))"
proof -
  from assms(4) have b: "is_build x" by (rule event_config_is_build)
  from main_build_events [OF assms(3) b] obtain tr ev where
    l: "snd (load_data w PATH (dataset a)) = Inr (tr, ev)" and
    x: "x \<in> set (fst (build_model w (select_arch (dataset a)) a (tl (shape tr))))"
    by blast
  from load_data_shape [OF l assms(1,2)] have "shape tr = shape raw"
    by (simp add: div255_def)
  with build_model_config [OF x assms(4)] show ?thesis by simp
qed

theorem input_dim_overwritten_witness:
  "np_load demo_env (train_path demo_PATH ''mnist'') = Inr (demo_npz demo_train)
   \<and> demo_npz demo_train ''data'' = Inr demo_train
   \<and> NewModel VAE (demo_config [(''latent_dim'', ''16'')]) demo_net demo_net
       \<in> set (fst (main demo_env demo_PATH (demo_args\<lparr>model_config := Some ''model.json''\<rparr>)))
   \<and> input_dim (demo_config [(''latent_dim'', ''16'')]) = Some (tl (shape demo_train))"
proof -
  have h1: "np_load demo_env (train_path demo_PATH (dataset (demo_args\<lparr>model_config := Some ''model.json''\<rparr>)))
              = Inr (demo_npz demo_train)"
    by (simp add: stage_defs demo_defs)
  have h2: "demo_npz demo_train ''data'' = Inr demo_train"
    by (simp add: demo_npz_def)
  have h3: "NewModel VAE (demo_config [(''latent_dim'', ''16'')]) demo_net demo_net
             \<in> set (fst (main demo_env demo_PATH (demo_args\<lparr>model_config := Some ''model.json''\<rparr>)))"
    by (simp add: run_eval stage_defs demo_defs)
  have h4: "event_config (NewModel VAE (demo_config [(''latent_dim'', ''16'')]) demo_net demo_net)
             = Some (demo_config [(''latent_dim'', ''16'')])"
    by simp
  from input_dim_overwritten [OF h1 h2 h3 h4] h1 h2 h3 show ?thesis
    by (simp add: demo_args_def)
qed

text \<open>
  C7. Without \<open>--model_config\<close> the configuration handed to the constructors is the
  default-constructed one of the family's own configuration class, changed at
  \<open>input_dim\<close> only, and no file is read; with a path, it is what that class's
  \<open>from_json_file\<close> returned for the path, changed at \<open>input_dim\<close> only.
\<close>

theorem config_default_or_loaded:
  assumes "x \<in> set (fst (main w PATH a))" and "event_config x = Some cfg"
  shows "\<exists>cc. family_config_cls (model_name a) = Some cc \<and>
           (case model_config a of
              None \<Rightarrow>
                cfg = (new_config w cc)\<lparr>input_dim := input_dim cfg\<rparr>
                \<and> filter is_config_source (fst (main w PATH a)) = [NewConfig cc]
            | Some p \<Rightarrow>
                (\<exists>loaded. from_json_file w cc p = Inr loaded
                   \<and> cfg = loaded\<lparr>input_dim := input_dim cfg\<rparr>)
                \<and> filter is_config_source (fst (main w PATH a)) = [FromJsonFile cc p])"
proof -
  from assms(2) have b: "is_build x" by (rule event_config_is_build)
  from main_build_events [OF assms(1) b] obtain tr ev where
    l: "snd (load_data w PATH (dataset a)) = Inr (tr, ev)" and
    x: "x \<in> set (fst (build_model w (select_arch (dataset a)) a (tl (shape tr))))"
    by blast
  have f: "filter is_config_source (fst (main w PATH a))
             = filter is_config_source
                 (fst (build_model w (select_arch (dataset a)) a (tl (shape tr))))"
  proof -
    have "filter is_config_source (fst (main w PATH a))
            = filter is_config_source (filter is_build (fst (main w PATH a)))"
      by (auto simp add: filter_filter intro!: filter_cong dest: is_config_source_is_build)
    then show ?thesis
      by (simp only: build_events_in_main [OF assms(1) b l])
  qed
  from build_model_config [OF x assms(2)] show ?thesis
    by (auto simp add: f split: option.splits)
qed

theorem config_default_or_loaded_witness:
  "NewNet Encoder_VAE_MNIST (demo_config [(''latent_dim'', ''10'')])
     \<in> set (fst (main demo_env demo_PATH demo_args))
   \<and> family_config_cls (model_name demo_args) = Some VAEConfig
   \<and> model_config demo_args = None
   \<and> demo_config [(''latent_dim'', ''10'')]
       = (new_config demo_env VAEConfig)\<lparr>input_dim := Some [1, 2, 2]\<rparr>
   \<and> filter is_config_source (fst (main demo_env demo_PATH demo_args)) = [NewConfig VAEConfig]"
proof -
  have h1: "NewNet Encoder_VAE_MNIST (demo_config [(''latent_dim'', ''10'')])
              \<in> set (fst (main demo_env demo_PATH demo_args))"
    by (simp add: run_eval stage_defs demo_defs)
  have h2: "event_config (NewNet Encoder_VAE_MNIST (demo_config [(''latent_dim'', ''10'')]))
              = Some (demo_config [(''latent_dim'', ''10'')])"
    by simp
  have h3: "family_config_cls (model_name demo_args) = Some VAEConfig"
    by (simp add: family_config_cls_def demo_args_def)
  have h4: "model_config demo_args = None"
    by (simp add: demo_args_def)
  from config_default_or_loaded [OF h1 h2] h1 h3 h4 show ?thesis
    by (simp add: demo_config_def)
qed

subsection \<open>Encoder and decoder\<close>

text \<open>
  C2. When \<open>main\<close> calls a model constructor, the constructor calls of the run are, in
  this order: the configuration source, the encoder class, the decoder class, the model
  class. The encoder class is the dataset's autoencoding encoder for \<open>ae\<close> and \<open>wae\<close>
  and its variational encoder for \<open>vae\<close>, \<open>beta_vae\<close>, \<open>vamp\<close>, \<open>hvae\<close> and
  \<open>rhvae\<close>; the decoder class is the dataset's one decoder in every case; both receive
  the very configuration the model receives, which carries the injected \<open>input_dim\<close>;
  and the model is given the two instances those calls returned.
\<close>

theorem encoder_decoder_selection:
  assumes "NewModel mc cfg e d \<in> set (fst (main w PATH a))"
  shows "\<exists>ar src tr ev.
           select_arch (dataset a) = Some ar
           \<and> family_model_cls (model_name a) = Some mc
           \<and> is_config_source src
           \<and> filter is_build (fst (main w PATH a))
               = [src,
                  NewNet (if model_name a \<in> set ae_style then Encoder_AE ar
                          else Encoder_VAE ar) cfg,
                  NewNet (Decoder_AE ar) cfg,
                  NewModel mc cfg e d]
           \<and> new_net w (if model_name a \<in> set ae_style then Encoder_AE ar
                         else Encoder_VAE ar) cfg = Inr e
           \<and> new_net w (Decoder_AE ar) cfg = Inr d
           \<and> (model_name a \<in> set ae_style \<or> model_name a \<in> set vae_style)
           \<and> snd (load_data w PATH (dataset a)) = Inr (tr, ev)
           \<and> input_dim cfg = Some (tl (shape tr))"
proof -
  have b: "is_build (NewModel mc cfg e d)" by simp
  from main_build_events [OF assms b] obtain tr ev where
    l: "snd (load_data w PATH (dataset a)) = Inr (tr, ev)" and
    x: "NewModel mc cfg e d
          \<in> set (fst (build_model w (select_arch (dataset a)) a (tl (shape tr))))"
    by blast
  have c: "event_config (NewModel mc cfg e d) = Some cfg" by simp
  from build_model_config [OF x c] have i: "input_dim cfg = Some (tl (shape tr))" by simp
  from build_model_new_model [OF x] build_events_in_main [OF assms b l] l i
  show ?thesis by auto
qed

theorem encoder_decoder_selection_witness:
  "NewModel WAE_MMD (demo_config [(''latent_dim'', ''10'')]) demo_net demo_net
     \<in> set (fst (main demo_env demo_PATH (demo_args\<lparr>model_name := ''wae''\<rparr>)))
   \<and> filter is_build (fst (main demo_env demo_PATH (demo_args\<lparr>model_name := ''wae''\<rparr>)))
       = [NewConfig WAE_MMD_Config,
          NewNet Encoder_AE_MNIST (demo_config [(''latent_dim'', ''10'')]),
          NewNet Decoder_AE_MNIST (demo_config [(''latent_dim'', ''10'')]),
          NewModel WAE_MMD (demo_config [(''latent_dim'', ''10'')]) demo_net demo_net]"
proof -
  have h: "NewModel WAE_MMD (demo_config [(''latent_dim'', ''10'')]) demo_net demo_net
             \<in> set (fst (main demo_env demo_PATH (demo_args\<lparr>model_name := ''wae''\<rparr>)))"
    by (simp add: run_eval stage_defs demo_defs)
  have s: "select_arch (dataset (demo_args\<lparr>model_name := ''wae''\<rparr>))
             = Some \<lparr>Encoder_AE = Encoder_AE_MNIST, Encoder_VAE = Encoder_VAE_MNIST,
                     Decoder_AE = Decoder_AE_MNIST\<rparr>"
    by (simp add: select_arch_def demo_args_def)
  have n: "model_name (demo_args\<lparr>model_name := ''wae''\<rparr>) \<in> set ae_style"
    by (simp add: ae_style_def)
  from encoder_decoder_selection [OF h] obtain ar src where
    "select_arch (dataset (demo_args\<lparr>model_name := ''wae''\<rparr>)) = Some ar"
    "is_config_source src"
    "filter is_build (fst (main demo_env demo_PATH (demo_args\<lparr>model_name := ''wae''\<rparr>)))
       = [src,
          NewNet (if model_name (demo_args\<lparr>model_name := ''wae''\<rparr>) \<in> set ae_style
                  then Encoder_AE ar else Encoder_VAE ar)
            (demo_config [(''latent_dim'', ''10'')]),
          NewNet (Decoder_AE ar) (demo_config [(''latent_dim'', ''10'')]),
          NewModel WAE_MMD (demo_config [(''latent_dim'', ''10'')]) demo_net demo_net]"
    by blast
  moreover have "hd (filter is_build (fst (main demo_env demo_PATH
                   (demo_args\<lparr>model_name := ''wae''\<rparr>)))) = NewConfig WAE_MMD_Config"
    by (simp add: run_eval stage_defs demo_defs)
  ultimately show ?thesis using h s n by simp
qed

subsection \<open>Parameter counts\<close>










subsection \<open>Load failures\<close>

lemma sublist_mid: "ys = ps @ xs @ ss \<Longrightarrow> sublist xs ys"
  by (auto simp add: sublist_def)

lemma load_error_msg_names:
  "sublist (''data/'' @ ds) (load_error_msg ds c)"
  "sublist ''train_data.npz'' (load_error_msg ds c)"
  "sublist ''eval_data.npz'' (load_error_msg ds c)"
proof -
  show "sublist (''data/'' @ ds) (load_error_msg ds c)"
    by (rule sublist_mid [where ps = "''Unable to load the data from '' @ [CHR 0x27]"])
       (simp add: load_error_msg_def quoted_def)
  show "sublist ''train_data.npz'' (load_error_msg ds c)"
    by (rule sublist_mid [where ps = "''Unable to load the data from '' @ quoted (''data/'' @ ds)
          @ '' folder. Please check that both a '' @ [CHR 0x27]"])
       (simp add: load_error_msg_def quoted_def)
  show "sublist ''eval_data.npz'' (load_error_msg ds c)"
    by (rule sublist_mid [where ps = "''Unable to load the data from '' @ quoted (''data/'' @ ds)
          @ '' folder. Please check that both a '' @ quoted ''train_data.npz''
          @ '' and '' @ [CHR 0x27]"])
       (simp add: load_error_msg_def quoted_def)
qed

text \<open>
  C4, as the code has it. When the expression \<open>np.load(path)['data'] / 255.\<close> raises for
  the train file, or succeeds for it and raises for the eval file, \<open>main\<close> ends with a
  \<open>FileNotFoundError\<close> (lines 82-88; the script has no \<open>DataLoadError\<close>) whose cause is
  the exception raised and whose message names \<open>data/<dataset>\<close>, \<open>train_data.npz\<close> and
  \<open>eval_data.npz\<close>. The run has then made no call other than the log line and the
  loads: no configuration, network or model was constructed.
\<close>

theorem load_failure_is_file_not_found:
  assumes "snd (load_array w (train_path PATH (dataset a))) = Inl c
           \<or> ((\<exists>tr. snd (load_array w (train_path PATH (dataset a))) = Inr tr)
               \<and> snd (load_array w (eval_path PATH (dataset a))) = Inl c)"
  shows "snd (main w PATH a)
           = Inl (Exn ''FileNotFoundError'' (load_error_msg (dataset a) c) (Some c))
         \<and> sublist (''data/'' @ dataset a) (load_error_msg (dataset a) c)
         \<and> sublist ''train_data.npz'' (load_error_msg (dataset a) c)
         \<and> sublist ''eval_data.npz'' (load_error_msg (dataset a) c)
         \<and> filter is_build (fst (main w PATH a)) = []
         \<and> set (fst (main w PATH a))
             \<subseteq> {LogInfo (LoadingData (dataset a)), NpLoad (train_path PATH (dataset a)),
                 NpLoad (eval_path PATH (dataset a))}"
proof -
  from assms have r: "snd (load_data w PATH (dataset a)) = Inl (load_error (dataset a) c)"
    by (auto simp add: load_data_result)
  then have "snd (main w PATH a) = Inl (load_error (dataset a) c)"
    and "fst (main w PATH a) = fst (load_data w PATH (dataset a))"
    by (simp_all add: main_result main_trace)
  then show ?thesis
    using load_error_msg_names [of "dataset a" c] filter_build_load [of w PATH "dataset a"]
    by (auto simp add: load_error_def dest: load_data_kinds)
qed

theorem load_failure_is_file_not_found_witness:
  "snd (load_array demo_env (train_path demo_PATH ''cifar10''))
     = Inl (no_such_file ''/repo/examples/scripts/data/cifar10/train_data.npz'')
   \<and> snd (main demo_env demo_PATH (demo_args\<lparr>dataset := ''cifar10''\<rparr>))
       = Inl (Exn ''FileNotFoundError''
                (load_error_msg ''cifar10''
                   (no_such_file ''/repo/examples/scripts/data/cifar10/train_data.npz''))
                (Some (no_such_file ''/repo/examples/scripts/data/cifar10/train_data.npz'')))
   \<and> filter is_build (fst (main demo_env demo_PATH (demo_args\<lparr>dataset := ''cifar10''\<rparr>))) = []"
proof -
  have h: "snd (load_array demo_env
                  (train_path demo_PATH (dataset (demo_args\<lparr>dataset := ''cifar10''\<rparr>))))
             = Inl (no_such_file ''/repo/examples/scripts/data/cifar10/train_data.npz'')"
    by (simp add: load_array_result train_path_def demo_env_def demo_PATH_def)
  from load_failure_is_file_not_found [OF disjI1, OF h] h show ?thesis
    by simp
qed

text \<open>
  C4 as stated fails on the class of the exception: with the train file of \<open>cifar10\<close>
  missing, the run ends with a \<open>FileNotFoundError\<close>, not a \<open>DataLoadError\<close>.
\<close>

theorem data_load_error_counterexample:
  "isl (snd (main demo_env demo_PATH (demo_args\<lparr>dataset := ''cifar10''\<rparr>)))
   \<and> exn_class (projl (snd (main demo_env demo_PATH (demo_args\<lparr>dataset := ''cifar10''\<rparr>))))
       = ''FileNotFoundError''
   \<and> exn_class (projl (snd (main demo_env demo_PATH (demo_args\<lparr>dataset := ''cifar10''\<rparr>))))
       \<noteq> ''DataLoadError''"
  by (simp add: main_result load_data_result load_array_result train_path_def load_error_def
      demo_env_def demo_PATH_def demo_args_def)

subsection \<open>The eval split\<close>







subsection \<open>Paths\<close>

lemma main_event_kinds:
  assumes "x \<in> set (fst (main w PATH a))"
  shows "x \<in> set (fst (load_data w PATH (dataset a))) \<or> is_log x \<or> is_build x
         \<or> x = TrainingFromJsonFile (training_config a) \<or> is_pipeline x"
  using assms
  by (auto simp add: main_trace prepare_trace split: sum.splits option.splits
      dest: report_data_logs build_model_is_build report_model_logs make_pipeline_kinds)

lemma main_np_load:
  assumes "NpLoad p \<in> set (fst (main w PATH a))"
  shows "p = train_path PATH (dataset a) \<or> p = eval_path PATH (dataset a)"
  using main_event_kinds [OF assms] by (auto dest: load_data_kinds)

lemma main_training_config_load:
  assumes "TrainingFromJsonFile p \<in> set (fst (main w PATH a))"
  shows "p = training_config a"
  using main_event_kinds [OF assms] by (auto dest: load_data_kinds)

lemma script_main:
  assumes "x \<in> set (fst (script w PATH raw))"
  shows "\<exists>ds m. arg_dataset raw = Some ds \<and> ds \<in> set dataset_choices
           \<and> arg_model_name raw = Some m \<and> m \<in> set model_name_choices
           \<and> x \<in> set (fst (main w PATH
                 \<lparr>dataset = ds, model_name = m, model_config = arg_model_config raw,
                  training_config =
                    (case arg_training_config raw of
                       None \<Rightarrow> os_path_join PATH [''configs/base_training_config.json'']
                     | Some p \<Rightarrow> p)\<rparr>))"
  using assms
  by (auto simp add: script_def parse_args_def raise_def split: option.splits if_splits)

text \<open>The files a run reads, for a value of \<open>PATH\<close>.\<close>

lemma script_paths:
  assumes "x \<in> set (fst (script w PATH raw))"
  shows "(\<forall>p. x = NpLoad p \<longrightarrow>
            (\<exists>ds \<in> set dataset_choices. arg_dataset raw = Some ds
               \<and> (p = os_path_join PATH [''data/'' @ ds, ''train_data.npz'']
                  \<or> p = os_path_join PATH [''data/'' @ ds, ''eval_data.npz''])
               \<and> (PATH \<noteq> [] \<and> last PATH \<noteq> CHR ''/'' \<longrightarrow>
                    p = PATH @ ''/data/'' @ ds @ ''/train_data.npz''
                    \<or> p = PATH @ ''/data/'' @ ds @ ''/eval_data.npz''))
            \<and> prefix PATH p)
       \<and> (\<forall>p. x = TrainingFromJsonFile p \<and> arg_training_config raw = None \<longrightarrow>
            p = os_path_join PATH [''configs/base_training_config.json'']
            \<and> (PATH \<noteq> [] \<and> last PATH \<noteq> CHR ''/'' \<longrightarrow>
                 p = PATH @ ''/configs/base_training_config.json'')
            \<and> prefix PATH p)"
proof -
  from script_main [OF assms] obtain ds m where
    d: "arg_dataset raw = Some ds" "ds \<in> set dataset_choices" and
    x: "x \<in> set (fst (main w PATH
          \<lparr>dataset = ds, model_name = m, model_config = arg_model_config raw,
           training_config =
             (case arg_training_config raw of
                None \<Rightarrow> os_path_join PATH [''configs/base_training_config.json'']
              | Some p \<Rightarrow> p)\<rparr>))"
    by blast
  have n: "\<And>p. x = NpLoad p \<Longrightarrow>
             p = os_path_join PATH [''data/'' @ ds, ''train_data.npz'']
             \<or> p = os_path_join PATH [''data/'' @ ds, ''eval_data.npz'']"
    using x main_np_load by (fastforce simp add: train_path_def eval_path_def)
  have t: "\<And>p. x = TrainingFromJsonFile p \<Longrightarrow> arg_training_config raw = None \<Longrightarrow>
             p = os_path_join PATH [''configs/base_training_config.json'']"
    using x main_training_config_load by fastforce
  have jt: "prefix PATH (os_path_join PATH [''data/'' @ ds, ''train_data.npz''])
            \<and> (PATH \<noteq> [] \<and> last PATH \<noteq> CHR ''/'' \<longrightarrow>
                 os_path_join PATH [''data/'' @ ds, ''train_data.npz'']
                   = PATH @ ''/data/'' @ ds @ ''/train_data.npz'')"
    using d(2) by (auto simp add: dataset_choices_def)
  have je: "prefix PATH (os_path_join PATH [''data/'' @ ds, ''eval_data.npz''])
            \<and> (PATH \<noteq> [] \<and> last PATH \<noteq> CHR ''/'' \<longrightarrow>
                 os_path_join PATH [''data/'' @ ds, ''eval_data.npz'']
                   = PATH @ ''/data/'' @ ds @ ''/eval_data.npz'')"
    using d(2) by (auto simp add: dataset_choices_def)
  have c: "prefix PATH (os_path_join PATH [''configs/base_training_config.json''])
           \<and> (PATH \<noteq> [] \<and> last PATH \<noteq> CHR ''/'' \<longrightarrow>
                os_path_join PATH [''configs/base_training_config.json'']
                  = PATH @ ''/configs/base_training_config.json'')"
    by simp
  have np: "\<forall>p. x = NpLoad p \<longrightarrow>
            (\<exists>ds \<in> set dataset_choices. arg_dataset raw = Some ds
               \<and> (p = os_path_join PATH [''data/'' @ ds, ''train_data.npz'']
                  \<or> p = os_path_join PATH [''data/'' @ ds, ''eval_data.npz''])
               \<and> (PATH \<noteq> [] \<and> last PATH \<noteq> CHR ''/'' \<longrightarrow>
                    p = PATH @ ''/data/'' @ ds @ ''/train_data.npz''
                    \<or> p = PATH @ ''/data/'' @ ds @ ''/eval_data.npz''))
            \<and> prefix PATH p"
    using n jt je d by blast
  have tc: "\<forall>p. x = TrainingFromJsonFile p \<and> arg_training_config raw = None \<longrightarrow>
            p = os_path_join PATH [''configs/base_training_config.json'']
            \<and> (PATH \<noteq> [] \<and> last PATH \<noteq> CHR ''/'' \<longrightarrow>
                 p = PATH @ ''/configs/base_training_config.json'')
            \<and> prefix PATH p"
    using t c by blast
  from np tc show ?thesis by (rule conjI)
qed

subsection \<open>Order of the last steps\<close>

lemma split_after_prefix:
  assumes "X @ Y = pre @ x # post" and "x \<notin> set X"
  shows "\<exists>us. pre = X @ us \<and> Y = us @ x # post"
  using assms
  by (auto simp add: append_eq_append_conv2 append_eq_Cons_conv)

lemma main_reaches_pipeline:
  assumes "x \<in> set (fst (main w PATH a))"
    and "is_training_config_load x \<or> is_pipeline x"
  shows "\<exists>X tr ev m mc cfg e d.
           fst (main w PATH a)
             = X @ fst (make_pipeline w a m)
               @ (case snd (make_pipeline w a m) of
                    Inl err \<Rightarrow> []
                  | Inr tc \<Rightarrow> [CallPipeline m tr ev])
           \<and> (\<forall>y \<in> set X. \<not> is_training_config_load y \<and> \<not> is_pipeline y)
           \<and> NewModel mc cfg e d \<in> set X \<and> new_model w mc cfg e d = Inr m
           \<and> (\<exists>y \<in> set X. is_param_counts y)
           \<and> snd (main w PATH a)
               = (case snd (make_pipeline w a m) of
                    Inl err \<Rightarrow> Inl err
                  | Inr tc \<Rightarrow> opt_result (call_pipeline w tc m tr ev))"
proof -
  have k: "\<And>y. is_log y \<or> is_build y \<or> is_np_load y
             \<Longrightarrow> \<not> is_training_config_load y \<and> \<not> is_pipeline y"
    subgoal for y by (cases y) auto
    done
  have ld: "\<And>y. y \<in> set (fst (load_data w PATH (dataset a)))
             \<Longrightarrow> \<not> is_training_config_load y \<and> \<not> is_pipeline y"
    by (auto dest: load_data_kinds)
  show ?thesis
  proof (cases "snd (load_data w PATH (dataset a))")
    case (Inl err)
    with assms ld [of x] show ?thesis by (auto simp add: main_trace)
  next
    case (Inr p)
    obtain tr ev where p: "p = (tr, ev)" by (cases p)
    have rd: "\<And>y. y \<in> set (fst (report_data (dataset a) tr ev))
               \<Longrightarrow> \<not> is_training_config_load y \<and> \<not> is_pipeline y"
      using k report_data_logs by blast
    have bm: "\<And>y. y \<in> set (fst (build_model w (select_arch (dataset a)) a (tl (shape tr))))
               \<Longrightarrow> \<not> is_training_config_load y \<and> \<not> is_pipeline y"
      using k build_model_is_build by blast
    have rm: "\<And>y b. y \<in> set (fst (report_model (model_name a) b))
               \<Longrightarrow> \<not> is_training_config_load y \<and> \<not> is_pipeline y"
      using k report_model_logs by blast
    show ?thesis
    proof (cases "snd (report_data (dataset a) tr ev)")
      case (Inl err)
      with assms Inr p ld [of x] rd [of x] show ?thesis
        by (auto simp add: main_trace prepare_trace prepare_result)
    next
      case r: (Inr u)
      show ?thesis
      proof (cases "snd (build_model w (select_arch (dataset a)) a (tl (shape tr)))")
        case (Inl err)
        with assms Inr p r ld [of x] rd [of x] bm [of x] show ?thesis
          by (auto simp add: main_trace prepare_trace prepare_result)
      next
        case b: (Inr bound)
        show ?thesis
        proof (cases bound)
          case None
          with assms Inr p r b ld [of x] rd [of x] bm [of x] rm [of x None] show ?thesis
            by (auto simp add: main_trace prepare_trace prepare_result)
        next
          case (Some m)
          let ?X = "fst (load_data w PATH (dataset a)) @ fst (report_data (dataset a) tr ev)
                    @ fst (build_model w (select_arch (dataset a)) a (tl (shape tr)))
                    @ fst (report_model (model_name a) (Some m))"
          from b Some build_model_ok obtain mc cfg e d where
            nm: "NewModel mc cfg e d
                   \<in> set (fst (build_model w (select_arch (dataset a)) a (tl (shape tr))))"
                "new_model w mc cfg e d = Inr m"
            by blast
          have t: "fst (main w PATH a)
                     = ?X @ fst (make_pipeline w a m)
                       @ (case snd (make_pipeline w a m) of
                            Inl err \<Rightarrow> []
                          | Inr tc \<Rightarrow> [CallPipeline m tr ev])"
            using Inr p r b Some
            by (simp add: main_trace prepare_trace prepare_result split: sum.splits)
          have s: "snd (main w PATH a)
                     = (case snd (make_pipeline w a m) of
                          Inl err \<Rightarrow> Inl err
                        | Inr tc \<Rightarrow> opt_result (call_pipeline w tc m tr ev))"
            using Inr p r b Some
            by (simp add: main_result prepare_result split: sum.splits)
          have q: "\<forall>y \<in> set ?X. \<not> is_training_config_load y \<and> \<not> is_pipeline y"
            using ld rd bm rm [of _ "Some m"] by auto
          have n: "NewModel mc cfg e d \<in> set ?X" using nm(1) by simp
          have c: "\<exists>y \<in> set ?X. is_param_counts y"
            by (simp add: report_model_trace)
          from t s q n nm(2) c show ?thesis by blast
        qed
      qed
    qed
  qed
qed

text \<open>
  C10. Wherever the training configuration is read or the pipeline is created or called
  in a run of \<open>main\<close>, a model constructor has been called before and has returned, and
  the parameter counts have been logged before. The pipeline is created or called only
  after the training configuration has been read, and only if reading it succeeded; if
  reading it raises, that call is the last of the run and its exception ends the run.
\<close>

theorem training_config_after_assembly:
  assumes "fst (main w PATH a) = pre @ x # post"
    and "is_training_config_load x \<or> is_pipeline x"
  shows "(\<exists>mc cfg e d m. NewModel mc cfg e d \<in> set pre \<and> new_model w mc cfg e d = Inr m)
         \<and> (\<exists>y \<in> set pre. is_param_counts y)
         \<and> (is_training_config_load x \<longrightarrow>
              (\<forall>err. training_from_json_file w (training_config a) = Inl err \<longrightarrow>
                 post = [] \<and> snd (main w PATH a) = Inl err))
         \<and> (is_pipeline x \<longrightarrow>
              TrainingFromJsonFile (training_config a) \<in> set pre
              \<and> (\<exists>tc. training_from_json_file w (training_config a) = Inr tc))"
proof -
  from assms(1) have "x \<in> set (fst (main w PATH a))" by simp
  from main_reaches_pipeline [OF this assms(2)] obtain X tr ev m mc cfg e d where
    t: "fst (main w PATH a)
          = X @ fst (make_pipeline w a m)
            @ (case snd (make_pipeline w a m) of
                 Inl err \<Rightarrow> []
               | Inr tc \<Rightarrow> [CallPipeline m tr ev])" and
    q: "\<forall>y \<in> set X. \<not> is_training_config_load y \<and> \<not> is_pipeline y" and
    n: "NewModel mc cfg e d \<in> set X" "new_model w mc cfg e d = Inr m" and
    c: "\<exists>y \<in> set X. is_param_counts y" and
    s: "snd (main w PATH a)
          = (case snd (make_pipeline w a m) of
               Inl err \<Rightarrow> Inl err
             | Inr tc \<Rightarrow> opt_result (call_pipeline w tc m tr ev))"
    by blast
  let ?Y = "fst (make_pipeline w a m)
            @ (case snd (make_pipeline w a m) of
                 Inl err \<Rightarrow> []
               | Inr tc \<Rightarrow> [CallPipeline m tr ev])"
  from q assms(2) have "x \<notin> set X" by blast
  with t assms(1) have "X @ ?Y = pre @ x # post" by simp
  from split_after_prefix [OF this \<open>x \<notin> set X\<close>] obtain us where
    u: "pre = X @ us" "?Y = us @ x # post"
    by blast
  have p1: "\<exists>mc cfg e d m. NewModel mc cfg e d \<in> set pre \<and> new_model w mc cfg e d = Inr m"
  proof -
    from n(1) u(1) have "NewModel mc cfg e d \<in> set pre" by simp
    with n(2) show ?thesis by blast
  qed
  have p2: "\<exists>y \<in> set pre. is_param_counts y"
  proof -
    from c obtain y where "y \<in> set X" "is_param_counts y" by blast
    with u(1) have "y \<in> set pre" by simp
    with \<open>is_param_counts y\<close> show ?thesis by blast
  qed
  have p3: "is_training_config_load x \<longrightarrow>
              (\<forall>err. training_from_json_file w (training_config a) = Inl err \<longrightarrow>
                 post = [] \<and> snd (main w PATH a) = Inl err)"
    using u(2) s
    by (auto simp add: make_pipeline_trace make_pipeline_result Cons_eq_append_conv)
  have p4: "is_pipeline x \<longrightarrow>
              TrainingFromJsonFile (training_config a) \<in> set pre
              \<and> (\<exists>tc. training_from_json_file w (training_config a) = Inr tc)"
    using u
    by (cases "training_from_json_file w (training_config a)")
       (auto simp add: make_pipeline_trace make_pipeline_result Cons_eq_append_conv)
  from p1 p2 p3 p4 show ?thesis by blast
qed

theorem training_config_after_assembly_witness:
  "fst (main demo_env demo_PATH (demo_args\<lparr>training_config := ''bad.json''\<rparr>))
     = butlast (fst (main demo_env demo_PATH (demo_args\<lparr>training_config := ''bad.json''\<rparr>)))
       @ TrainingFromJsonFile ''bad.json'' # []
   \<and> is_training_config_load (TrainingFromJsonFile ''bad.json'')
   \<and> (\<exists>mc cfg e d m.
         NewModel mc cfg e d
           \<in> set (butlast (fst (main demo_env demo_PATH
                                  (demo_args\<lparr>training_config := ''bad.json''\<rparr>))))
         \<and> new_model demo_env mc cfg e d = Inr m)
   \<and> snd (main demo_env demo_PATH (demo_args\<lparr>training_config := ''bad.json''\<rparr>))
       = Inl (Exn ''json.decoder.JSONDecodeError''
                ''Expecting value: line 1 column 1 (char 0)'' None)"
proof -
  have h1: "fst (main demo_env demo_PATH (demo_args\<lparr>training_config := ''bad.json''\<rparr>))
     = butlast (fst (main demo_env demo_PATH (demo_args\<lparr>training_config := ''bad.json''\<rparr>)))
       @ TrainingFromJsonFile ''bad.json'' # []"
    by (simp add: run_eval stage_defs demo_defs)
  have h2: "is_training_config_load (TrainingFromJsonFile ''bad.json'')
            \<or> is_pipeline (TrainingFromJsonFile ''bad.json'')"
    by simp
  have h3: "training_from_json_file demo_env
              (training_config (demo_args\<lparr>training_config := ''bad.json''\<rparr>))
              = Inl (Exn ''json.decoder.JSONDecodeError''
                       ''Expecting value: line 1 column 1 (char 0)'' None)"
    by (simp add: demo_env_def)
  from training_config_after_assembly [OF h1 h2] h1 h3 show ?thesis
    by simp
qed

subsection \<open>The script directory\<close>

lemma isabs_iff: "isabs s \<longleftrightarrow> s \<noteq> [] \<and> hd s = CHR ''/''"
  by (cases s) (auto simp add: isabs_def)

lemma isabs_normpath:
  assumes "isabs p"
  shows "isabs (normpath p)"
proof -
  define n where
    "n = (if prefix ''//'' p \<and> \<not> prefix ''///'' p then 2
          else if prefix ''/'' p then 1 else (0::nat))"
  from assms have "0 < n" by (simp add: n_def isabs_def)
  then obtain k where k: "n = Suc k" by (cases n) auto
  from assms have "p \<noteq> []" by (simp add: isabs_iff)
  then have "normpath p
               = (let q = replicate n CHR ''/'' @ join_sep (fold (norm_step (0 < n)) (split_sep p) [])
                  in if q = [] then ''.'' else q)"
    by (simp add: normpath_def n_def Let_def)
  then show ?thesis by (simp add: Let_def isabs_iff k)
qed

lemma isabs_abspath: "isabs cwd \<Longrightarrow> isabs (abspath cwd file)"
  unfolding abspath_def
  by (rule isabs_normpath) (auto simp add: isabs_iff)

lemma dropWhile_snoc:
  "dropWhile P (xs @ [a]) = (if \<forall>x \<in> set xs. P x then dropWhile P [a] else dropWhile P xs @ [a])"
  by (induction xs) auto

lemma rstrip_keeps_head:
  assumes "\<exists>c \<in> set (a # r). \<not> P c" and "P a"
  shows "\<exists>r'. rev (dropWhile P (rev (a # r))) = a # r'"
  using assms by (auto simp add: dropWhile_snoc) (metis rev_rev_ident)

lemma head_of_abs:
  "\<exists>t. rev (dropWhile (\<lambda>c. c \<noteq> CHR ''/'') (rev (CHR ''/'' # s))) = CHR ''/'' # t"
  by (auto simp add: dropWhile_snoc) (metis rev_rev_ident)

lemma isabs_dirname:
  assumes "isabs p"
  shows "isabs (dirname p)"
proof -
  from assms obtain s where p: "p = CHR ''/'' # s" by (cases p) (auto simp add: isabs_iff)
  from head_of_abs [of s] obtain t where
    h: "rev (dropWhile (\<lambda>c. c \<noteq> CHR ''/'') (rev p)) = CHR ''/'' # t"
    unfolding p by blast
  show ?thesis
  proof (cases "CHR ''/'' # t = replicate (length (CHR ''/'' # t)) CHR ''/''")
    case True
    then show ?thesis using h by (simp add: dirname_def isabs_iff Let_def)
  next
    case False
    then have "\<exists>c \<in> set (CHR ''/'' # t). \<not> c = CHR ''/''"
      using replicate_length_same [of "CHR ''/'' # t" "CHR ''/''"] by auto
    from rstrip_keeps_head [OF this] obtain r' where
      "rev (dropWhile (\<lambda>c. c = CHR ''/'') (rev (CHR ''/'' # t))) = CHR ''/'' # r'"
      by auto
    then show ?thesis using False h by (simp add: dirname_def isabs_iff Let_def)
  qed
qed

lemma isabs_module_PATH: "isabs cwd \<Longrightarrow> isabs (module_PATH cwd file)"
  unfolding module_PATH_def by (intro isabs_dirname isabs_abspath)

lemma isabs_prefix: "isabs p \<Longrightarrow> prefix p q \<Longrightarrow> isabs q"
  by (auto simp add: isabs_def prefix_def)

lemma module_PATH_abs_file:
  "isabs file \<Longrightarrow> module_PATH cwd file = dirname (normpath file)"
  by (simp add: module_PATH_def abspath_def)

lemma split_sep_not_Nil: "split_sep s \<noteq> []"
  by (induction s) (auto split: list.splits)

lemma split_sep_no_slash:
  "CHR ''/'' \<notin> set c \<Longrightarrow> split_sep (c @ s) = (c @ hd (split_sep s)) # tl (split_sep s)"
proof (induction c)
  case Nil
  then show ?case using split_sep_not_Nil [of s] by (cases "split_sep s") auto
next
  case (Cons a c)
  then show ?case by (auto split: list.splits)
qed

lemma split_sep_path_of:
  "\<forall>c \<in> set cs. CHR ''/'' \<notin> set c \<Longrightarrow> split_sep (path_of cs) = [] # cs"
proof (induction cs)
  case Nil
  then show ?case by (simp add: path_of_def)
next
  case (Cons c cs)
  then have "split_sep (path_of cs) = [] # cs" by simp
  moreover have "path_of (c # cs) = CHR ''/'' # c @ path_of cs" by (simp add: path_of_def)
  moreover from Cons have "CHR ''/'' \<notin> set c" by simp
  ultimately show ?case by (simp add: split_sep_no_slash)
qed

lemma fold_norm_step_components:
  "\<forall>c \<in> set cs. is_component c \<Longrightarrow> fold (norm_step i) cs acc = acc @ cs"
  by (induction cs arbitrary: acc) (auto simp add: norm_step_def is_component_def)

lemma join_sep_path_of: "cs \<noteq> [] \<Longrightarrow> CHR ''/'' # join_sep cs = path_of cs"
  by (induction cs rule: join_sep.induct) (auto simp add: path_of_def)

lemma path_of_one_slash:
  assumes "is_component c"
  shows "prefix ''/'' (path_of (c # cs))" and "\<not> prefix ''//'' (path_of (c # cs))"
  using assms by (cases c; auto simp add: path_of_def is_component_def)+

lemma normpath_path_of:
  assumes "\<forall>c \<in> set cs. is_component c" and "cs \<noteq> []"
  shows "normpath (path_of cs) = path_of cs"
proof -
  from assms obtain c cs' where cs: "cs = c # cs'" and c: "is_component c"
    by (cases cs) auto
  have s: "split_sep (path_of cs) = [] # cs"
    using assms(1) by (intro split_sep_path_of) (auto simp add: is_component_def)
  have f: "fold (norm_step True) cs (norm_step True [] []) = cs"
    using fold_norm_step_components [OF assms(1), of True "[]"] by (simp add: norm_step_def)
  have n: "path_of cs \<noteq> []" by (simp add: cs path_of_def)
  show ?thesis
    using path_of_one_slash [OF c, of cs'] join_sep_path_of [OF assms(2)] n
    by (simp add: normpath_def Let_def s f flip: cs)
qed

lemma path_of_snoc: "path_of (cs @ [name]) = path_of cs @ CHR ''/'' # name"
  by (simp add: path_of_def)

lemma path_of_last_not_slash:
  assumes "\<forall>c \<in> set cs. is_component c" and "cs \<noteq> []"
  shows "path_of cs \<noteq> [] \<and> last (path_of cs) \<noteq> CHR ''/''"
  using assms
proof (induction cs rule: rev_induct)
  case Nil
  then show ?case by simp
next
  case (snoc c cs)
  then have "c \<noteq> []" "CHR ''/'' \<notin> set c" by (auto simp add: is_component_def)
  then have "last c \<noteq> CHR ''/''" using last_in_set by metis
  with \<open>c \<noteq> []\<close> show ?case by (simp add: path_of_snoc)
qed

lemma dropWhile_until:
  "\<forall>x \<in> set xs. P x \<Longrightarrow> \<not> P y \<Longrightarrow> dropWhile P (xs @ y # ys) = y # ys"
  by (induction xs) auto

lemma dirname_path_of:
  assumes "\<forall>c \<in> set (cs @ [name]). is_component c"
  shows "dirname (path_of (cs @ [name])) = (if cs = [] then ''/'' else path_of cs)"
proof -
  from assms have nm: "CHR ''/'' \<notin> set name" by (simp add: is_component_def)
  then have "dropWhile (\<lambda>c. c \<noteq> CHR ''/'') (rev name @ CHR ''/'' # rev (path_of cs))
               = CHR ''/'' # rev (path_of cs)"
    by (intro dropWhile_until) auto
  then have h: "rev (dropWhile (\<lambda>c. c \<noteq> CHR ''/'') (rev (path_of (cs @ [name]))))
                  = path_of cs @ ''/''"
    by (simp add: path_of_snoc)
  show ?thesis
  proof (cases "cs = []")
    case True
    then show ?thesis using h by (simp add: dirname_def Let_def path_of_def)
  next
    case False
    with assms have l: "path_of cs \<noteq> []" "last (path_of cs) \<noteq> CHR ''/''"
      using path_of_last_not_slash [of cs] by auto
    then have ns: "path_of cs @ ''/'' \<noteq> replicate (length (path_of cs @ ''/'')) CHR ''/''"
      by (metis in_set_replicate last_in_set in_set_conv_decomp append_assoc
          Un_iff set_append)
    from l have "dropWhile (\<lambda>c. c = CHR ''/'') (rev (path_of cs)) = rev (path_of cs)"
      by (cases "rev (path_of cs)") (auto simp add: last_rev)
    then have "rev (dropWhile (\<lambda>c. c = CHR ''/'') (rev (path_of cs @ ''/''))) = path_of cs"
      by simp
    with False h ns show ?thesis by (simp add: dirname_def Let_def)
  qed
qed

lemma module_PATH_path_of:
  assumes "(if isabs file then file else os_path_join cwd [file]) = path_of (cs @ [name])"
    and "\<forall>c \<in> set (cs @ [name]). is_component c"
  shows "module_PATH cwd file = (if cs = [] then ''/'' else path_of cs)"
proof -
  have "abspath cwd file = path_of (cs @ [name])"
    using assms normpath_path_of [of "cs @ [name]"] by (simp add: abspath_def)
  then show ?thesis using dirname_path_of [OF assms(2)] by (simp add: module_PATH_def)
qed

text \<open>
  C9. \<open>PATH\<close> is \<open>dirname(abspath(__file__))\<close> (line 20). It is an absolute path
  (\<open>os.getcwd()\<close> returns one), it does not depend on the working directory when
  \<open>__file__\<close> is absolute, and when the absolute script file is \<open>/c1/.../cn/name\<close> it
  is \<open>/c1/.../cn\<close>, the directory that contains the script. Every file the script loads
  data from is \<open>PATH\<close> joined with \<open>data/<dataset>\<close> and \<open>train_data.npz\<close> or
  \<open>eval_data.npz\<close>, and without \<open>--training_config\<close> the training configuration is
  read from \<open>PATH\<close> joined with \<open>configs/base_training_config.json\<close>. Each of these
  paths begins with \<open>PATH\<close> and is absolute, so none is resolved against the working
  directory of the process.
\<close>

theorem paths_under_script_directory:
  assumes "x \<in> set (fst (training_script w cwd file raw))"
    and "isabs cwd" and "PATH = module_PATH cwd file"
  shows "isabs PATH
         \<and> (isabs file \<longrightarrow> PATH = dirname (normpath file))
         \<and> (\<forall>cs name.
               (if isabs file then file else os_path_join cwd [file]) = path_of (cs @ [name])
               \<and> (\<forall>c \<in> set (cs @ [name]). is_component c)
               \<longrightarrow> PATH = (if cs = [] then ''/'' else path_of cs))
         \<and> (\<forall>p. x = NpLoad p \<longrightarrow>
               (\<exists>ds \<in> set dataset_choices. arg_dataset raw = Some ds
                  \<and> (p = os_path_join PATH [''data/'' @ ds, ''train_data.npz'']
                     \<or> p = os_path_join PATH [''data/'' @ ds, ''eval_data.npz''])
                  \<and> (PATH \<noteq> [] \<and> last PATH \<noteq> CHR ''/'' \<longrightarrow>
                       p = PATH @ ''/data/'' @ ds @ ''/train_data.npz''
                       \<or> p = PATH @ ''/data/'' @ ds @ ''/eval_data.npz''))
               \<and> prefix PATH p \<and> isabs p)
         \<and> (\<forall>p. x = TrainingFromJsonFile p \<and> arg_training_config raw = None \<longrightarrow>
               p = os_path_join PATH [''configs/base_training_config.json'']
               \<and> (PATH \<noteq> [] \<and> last PATH \<noteq> CHR ''/'' \<longrightarrow>
                    p = PATH @ ''/configs/base_training_config.json'')
               \<and> prefix PATH p \<and> isabs p)"
proof -
  from assms(1,3) have x: "x \<in> set (fst (script w PATH raw))"
    by (simp add: training_script_def)
  have a: "isabs PATH"
    unfolding assms(3) using assms(2) by (rule isabs_module_PATH)
  have b: "isabs file \<longrightarrow> PATH = dirname (normpath file)"
    unfolding assms(3) by (simp add: module_PATH_abs_file)
  have c: "\<forall>cs name.
             (if isabs file then file else os_path_join cwd [file]) = path_of (cs @ [name])
             \<and> (\<forall>c \<in> set (cs @ [name]). is_component c)
             \<longrightarrow> PATH = (if cs = [] then ''/'' else path_of cs)"
    unfolding assms(3) using module_PATH_path_of by blast
  note s = script_paths [OF x]
  have d: "\<forall>p. x = NpLoad p \<longrightarrow>
             (\<exists>ds \<in> set dataset_choices. arg_dataset raw = Some ds
                \<and> (p = os_path_join PATH [''data/'' @ ds, ''train_data.npz'']
                   \<or> p = os_path_join PATH [''data/'' @ ds, ''eval_data.npz''])
                \<and> (PATH \<noteq> [] \<and> last PATH \<noteq> CHR ''/'' \<longrightarrow>
                     p = PATH @ ''/data/'' @ ds @ ''/train_data.npz''
                     \<or> p = PATH @ ''/data/'' @ ds @ ''/eval_data.npz''))
             \<and> prefix PATH p \<and> isabs p"
    using s a isabs_prefix by blast
  have e: "\<forall>p. x = TrainingFromJsonFile p \<and> arg_training_config raw = None \<longrightarrow>
             p = os_path_join PATH [''configs/base_training_config.json'']
             \<and> (PATH \<noteq> [] \<and> last PATH \<noteq> CHR ''/'' \<longrightarrow>
                  p = PATH @ ''/configs/base_training_config.json'')
             \<and> prefix PATH p \<and> isabs p"
    using s a isabs_prefix by blast
  from a b c d e show ?thesis by blast
qed

theorem paths_under_script_directory_witness:
  "isabs demo_cwd
   \<and> NpLoad ''/repo/examples/scripts/data/mnist/eval_data.npz''
       \<in> set (fst (training_script demo_env demo_cwd demo_file demo_raw))
   \<and> TrainingFromJsonFile ''/repo/examples/scripts/configs/base_training_config.json''
       \<in> set (fst (training_script demo_env demo_cwd demo_file demo_raw))
   \<and> arg_training_config demo_raw = None
   \<and> module_PATH demo_cwd demo_file = ''/repo/examples/scripts''
   \<and> prefix (module_PATH demo_cwd demo_file) ''/repo/examples/scripts/data/mnist/eval_data.npz''
   \<and> isabs ''/repo/examples/scripts/data/mnist/eval_data.npz''
   \<and> isabs ''/repo/examples/scripts/configs/base_training_config.json''
   \<and> \<not> prefix demo_cwd ''/repo/examples/scripts/data/mnist/eval_data.npz''"
proof -
  have m: "module_PATH demo_cwd demo_file = demo_PATH"
    by (simp add: module_PATH_def abspath_def normpath_def dirname_def isabs_def norm_step_def
        demo_cwd_def demo_file_def demo_PATH_def Let_def)
  have s: "training_script demo_env demo_cwd demo_file demo_raw
             = main demo_env demo_PATH demo_args"
    unfolding training_script_def m
    by (simp add: script_def parse_args_def dataset_choices_def model_name_choices_def
        demo_raw_def demo_args_def demo_PATH_def)
  have h0: "isabs demo_cwd"
    by (simp add: isabs_def demo_cwd_def)
  have h1: "NpLoad ''/repo/examples/scripts/data/mnist/eval_data.npz''
              \<in> set (fst (training_script demo_env demo_cwd demo_file demo_raw))"
    unfolding s by (simp add: run_eval stage_defs demo_defs)
  have h2: "TrainingFromJsonFile ''/repo/examples/scripts/configs/base_training_config.json''
              \<in> set (fst (training_script demo_env demo_cwd demo_file demo_raw))"
    unfolding s by (simp add: run_eval stage_defs demo_defs)
  have h3: "arg_training_config demo_raw = None"
    by (simp add: demo_raw_def)
  have f: "(if isabs demo_file then demo_file else os_path_join demo_cwd [demo_file])
             = path_of ([''repo'', ''examples'', ''scripts''] @ [''training.py''])
           \<and> (\<forall>c \<in> set ([''repo'', ''examples'', ''scripts''] @ [''training.py'']).
                 is_component c)"
    by (simp add: isabs_def demo_file_def path_of_def is_component_def)
  note t1 = paths_under_script_directory [OF h1 h0 refl]
  note t2 = paths_under_script_directory [OF h2 h0 refl]
  note c3 = t1 [THEN conjunct2, THEN conjunct2, THEN conjunct1, rule_format,
      of "[''repo'', ''examples'', ''scripts'']" "''training.py''"]
  have p0: "module_PATH demo_cwd demo_file = ''/repo/examples/scripts''"
    using c3 [OF f] by (simp add: path_of_def)
  note c4 = t1 [THEN conjunct2, THEN conjunct2, THEN conjunct2, THEN conjunct1, rule_format,
      OF refl]
  have p1: "prefix (module_PATH demo_cwd demo_file)
              ''/repo/examples/scripts/data/mnist/eval_data.npz''
            \<and> isabs ''/repo/examples/scripts/data/mnist/eval_data.npz''"
    using c4 [THEN conjunct2] .
  note c5 = t2 [THEN conjunct2, THEN conjunct2, THEN conjunct2, THEN conjunct2, rule_format,
      OF conjI, OF refl h3]
  have p2: "isabs ''/repo/examples/scripts/configs/base_training_config.json''"
    using c5 [THEN conjunct2, THEN conjunct2, THEN conjunct2] .
  have n: "\<not> prefix demo_cwd ''/repo/examples/scripts/data/mnist/eval_data.npz''"
    by (simp add: demo_cwd_def)
  from h0 h1 h2 h3 p0 p1 p2 n show ?thesis by blast
qed

end
